theory Spec2Isabelle
  imports Complex_Main
begin

section \<open>Request interception router (page.ts: Page.route, Page._requestStarted)\<close>

text \<open>
  A route entry is the object \<^verbatim>\<open>{ url, handler }\<close> pushed by \<^verbatim>\<open>Page.route\<close> and by
  \<^verbatim>\<open>CRBrowserContext.route\<close>. The URL matcher type and the handler type are left
  abstract; \<^verbatim>\<open>helper.urlMatches\<close> is not part of the sources at hand and is passed
  to the router as the parameter \<open>urlMatches\<close>.
\<close>

record ('m, 'h) route_entry =
  url :: 'm
  handler :: 'h

text \<open>
  A \<^verbatim>\<open>network.Request\<close> as the router reads it: \<^verbatim>\<open>request.url()\<close> and
  \<^verbatim>\<open>request._route()\<close>, the latter \<open>None\<close> when the request is not intercepted.
\<close>

record 'r request =
  request_url :: string
  request_route :: "'r option"

text \<open>What \<^verbatim>\<open>_requestStarted\<close> does to the outside world, in the order it does it.\<close>

datatype ('h, 'r) router_effect =
    EmitRequest
  | InvokeHandler 'h 'r
  | RouteContinue 'r

text \<open>\<^verbatim>\<open>this._routes.push({ url, handler })\<close>: registration appends at the end.\<close>

definition route :: "('m, 'h) route_entry list \<Rightarrow> 'm \<Rightarrow> 'h \<Rightarrow> ('m, 'h) route_entry list" where
  "route routes u h = routes @ [\<lparr>url = u, handler = h\<rparr>]"

text \<open>
  One \<^verbatim>\<open>for (const { url, handler } of routes)\<close> loop of \<^verbatim>\<open>_requestStarted\<close>: the
  handler of the first entry that matches, at which the source calls it and returns, or
  \<open>None\<close> when the loop runs to its end.
\<close>

fun firstMatch :: "(string \<Rightarrow> 'm \<Rightarrow> bool) \<Rightarrow> string \<Rightarrow> ('m, 'h) route_entry list \<Rightarrow> 'h option" where
  "firstMatch urlMatches u [] = None"
| "firstMatch urlMatches u (r # rs) =
     (if urlMatches u (url r) then Some (handler r) else firstMatch urlMatches u rs)"

definition requestStarted ::
  "(string \<Rightarrow> 'm \<Rightarrow> bool) \<Rightarrow> ('m, 'h) route_entry list \<Rightarrow> ('m, 'h) route_entry list
     \<Rightarrow> 'r request \<Rightarrow> ('h, 'r) router_effect list" where
  "requestStarted urlMatches pageRoutes contextRoutes request =
     EmitRequest #
     (case request_route request of
        None \<Rightarrow> []
      | Some rt \<Rightarrow>
          (case firstMatch urlMatches (request_url request) pageRoutes of
             Some h \<Rightarrow> [InvokeHandler h rt]
           | None \<Rightarrow>
               (case firstMatch urlMatches (request_url request) contextRoutes of
                  Some h \<Rightarrow> [InvokeHandler h rt]
                | None \<Rightarrow> [RouteContinue rt])))"

text \<open>The handlers invoked and the requests resumed by a run of the router.\<close>

fun invoked :: "('h, 'r) router_effect list \<Rightarrow> 'h list" where
  "invoked [] = []"
| "invoked (InvokeHandler h rt # es) = h # invoked es"
| "invoked (e # es) = invoked es"

fun continued :: "('h, 'r) router_effect list \<Rightarrow> 'r list" where
  "continued [] = []"
| "continued (RouteContinue rt # es) = rt # continued es"
| "continued (e # es) = continued es"

text \<open>The entries of a route list that match a URL, in registration order.\<close>

definition matching :: "(string \<Rightarrow> 'm \<Rightarrow> bool) \<Rightarrow> string \<Rightarrow> ('m, 'h) route_entry list \<Rightarrow> ('m, 'h) route_entry list" where
  "matching urlMatches u routes = filter (\<lambda>r. urlMatches u (url r)) routes"


section \<open>Exposed-function bindings (page.ts: Page.exposeFunction, PageBinding)\<close>

text \<open>
  Values that cross the binding channel are JSON values; \<open>JUndefined\<close> is what
  destructuring yields for a property the parsed payload does not have.
\<close>

datatype json =
    JUndefined
  | JNull
  | JBool bool
  | JNum int
  | JStr string
  | JArr "json list"
  | JObj "(string \<times> json) list"

text \<open>
  What a host function can throw (or reject with): an \<^verbatim>\<open>Error\<close> instance, of which
  \<^verbatim>\<open>dispatch\<close> reads \<^verbatim>\<open>message\<close> and \<^verbatim>\<open>stack\<close>, or any other value.
\<close>

datatype thrown =
    ErrorObject string "string option"
  | ThrownValue json

text \<open>
  \<^verbatim>\<open>class PageBinding\<close>. The field \<^verbatim>\<open>source\<close>, the bootstrap script text built by
  \<^verbatim>\<open>helper.evaluationString(addPageBinding, name)\<close>, is read neither by registration
  nor by dispatch and is left out. The host function is modelled by the outcome of
  \<^verbatim>\<open>await binding.playwrightFunction(...args)\<close>: the value it resolves to (\<open>Inr\<close>) or
  what it throws (\<open>Inl\<close>).
\<close>

record PageBinding =
  name :: string
  playwrightFunction :: "json list \<Rightarrow> thrown + json"

type_synonym bindings = "string \<rightharpoonup> PageBinding"

definition quoted :: "string \<Rightarrow> string" where
  "quoted s = [CHR 0x22] @ s @ [CHR 0x22]"

text \<open>
  \<^verbatim>\<open>Page.exposeFunction\<close>, up to the call of the delegate: the outcome (\<open>Inl\<close> the
  message of the \<^verbatim>\<open>Error\<close> thrown) and the page's binding map afterwards. The
  context's map is only read.
\<close>

definition exposeFunction ::
  "bindings \<Rightarrow> bindings \<Rightarrow> string \<Rightarrow> (json list \<Rightarrow> thrown + json) \<Rightarrow> (string + PageBinding) \<times> bindings" where
  "exposeFunction pageBindings contextBindings nm f =
     (if nm \<in> dom pageBindings then
        (Inl (''Function '' @ quoted nm @ '' has been already registered''), pageBindings)
      else if nm \<in> dom contextBindings then
        (Inl (''Function '' @ quoted nm @ '' has been already registered in the browser context''),
         pageBindings)
      else
        (let binding = \<lparr>name = nm, playwrightFunction = f\<rparr>
         in (Inr binding, pageBindings(nm \<mapsto> binding))))"

text \<open>
  \<^verbatim>\<open>CRBrowserContext.exposeFunction\<close>, up to the calls of the delegates: \<open>pages\<close> are
  the binding maps of \<^verbatim>\<open>this.pages()\<close>, which are only read; the context's own map is
  returned.
\<close>

definition contextExposeFunction ::
  "bindings list \<Rightarrow> bindings \<Rightarrow> string \<Rightarrow> (json list \<Rightarrow> thrown + json) \<Rightarrow> (string + PageBinding) \<times> bindings" where
  "contextExposeFunction pages contextBindings nm f =
     (if list_ex (\<lambda>pageBindings. nm \<in> dom pageBindings) pages then
        (Inl (''Function '' @ quoted nm @ '' has been already registered in one of the pages''),
         contextBindings)
      else if nm \<in> dom contextBindings then
        (Inl (''Function '' @ quoted nm @ '' has been already registered''), contextBindings)
      else
        (let binding = \<lparr>name = nm, playwrightFunction = f\<rparr>
         in (Inr binding, contextBindings(nm \<mapsto> binding))))"

text \<open>
  The expression \<^verbatim>\<open>dispatch\<close> evaluates in the calling execution context: one of its
  three local functions applied to the arguments given to \<^verbatim>\<open>helper.evaluationString\<close>.
\<close>

datatype delivery =
    DeliverResult json json json
  | DeliverError json json string "string option"
  | DeliverErrorValue json json json

text \<open>
  The two \<^verbatim>\<open>TypeError\<close>s the engine itself raises inside the \<^verbatim>\<open>try\<close> block: reading
  \<^verbatim>\<open>playwrightFunction\<close> of an undefined binding, and spreading \<^verbatim>\<open>args\<close> that are
  not iterable. Their texts are the engine's and come as a parameter.
\<close>

datatype js_fault = UndefinedBinding | ArgsNotIterable

text \<open>The object \<^verbatim>\<open>JSON.parse(payload)\<close> returns, as its property table.\<close>

type_synonym payload = "string \<rightharpoonup> json"

definition getProp :: "payload \<Rightarrow> string \<Rightarrow> json" where
  "getProp obj k = (case obj k of None \<Rightarrow> JUndefined | Some v \<Rightarrow> v)"

text \<open>
  \<^verbatim>\<open>page._pageBindings.get(name)\<close>, then the context's map when the page has none.
  The maps are keyed by strings, so a name that is not a string finds nothing.
\<close>

definition lookupBinding :: "bindings \<Rightarrow> bindings \<Rightarrow> json \<Rightarrow> PageBinding option" where
  "lookupBinding pageBindings contextBindings nm =
     (case nm of
        JStr s \<Rightarrow> (case pageBindings s of Some b \<Rightarrow> Some b | None \<Rightarrow> contextBindings s)
      | _ \<Rightarrow> None)"

text \<open>
  The argument list \<^verbatim>\<open>...args\<close>: arrays and strings are iterable, a string by its
  characters; spreading any other JSON value throws.
\<close>

definition spread :: "json \<Rightarrow> json list option" where
  "spread args =
     (case args of
        JArr xs \<Rightarrow> Some xs
      | JStr s \<Rightarrow> Some (map (\<lambda>c. JStr [c]) s)
      | _ \<Rightarrow> None)"

definition dispatch ::
  "(js_fault \<Rightarrow> string \<times> string option) \<Rightarrow> bindings \<Rightarrow> bindings \<Rightarrow> payload \<Rightarrow> delivery" where
  "dispatch fault pageBindings contextBindings obj =
     (let nm = getProp obj ''name''; seq = getProp obj ''seq''; args = getProp obj ''args'';
          outcome =
            (case lookupBinding pageBindings contextBindings nm of
               None \<Rightarrow> Inl (ErrorObject (fst (fault UndefinedBinding)) (snd (fault UndefinedBinding)))
             | Some binding \<Rightarrow>
                 (case spread args of
                    None \<Rightarrow> Inl (ErrorObject (fst (fault ArgsNotIterable)) (snd (fault ArgsNotIterable)))
                  | Some as \<Rightarrow> playwrightFunction binding as))
      in case outcome of
           Inr result \<Rightarrow> DeliverResult nm seq result
         | Inl (ErrorObject message stack) \<Rightarrow> DeliverError nm seq message stack
         | Inl (ThrownValue v) \<Rightarrow> DeliverErrorValue nm seq v)"

subsection \<open>The page side: the three delivery functions\<close>

text \<open>
  The state of \<^verbatim>\<open>window[bindingName]\<close> that \<^verbatim>\<open>addPageBinding\<close> keeps and the
  delivery functions read: \<^verbatim>\<open>lastSeq\<close> (0 while unset, as \<^verbatim>\<open>me['lastSeq'] || 0\<close> reads
  it), the keys of the \<^verbatim>\<open>callbacks\<close> map, and the state of the promise each call
  returned, by the sequence number of the call.
\<close>

datatype settlement =
    Pending
  | Fulfilled json
  | RejectedError string "string option"
  | RejectedValue json

record remote_binding =
  lastSeq :: int
  callbacks :: "int list"
  promises :: "int \<rightharpoonup> settlement"

type_synonym window = "string \<rightharpoonup> remote_binding"

text \<open>
  The outcome of \<^verbatim>\<open>context.evaluate(expression)\<close> for a delivery expression: the
  window after it ran, or \<open>Threw\<close> when it throws (which \<^verbatim>\<open>dispatch\<close> hands to
  \<^verbatim>\<open>debugError\<close> and drops). The delivery functions declare \<^verbatim>\<open>name: string\<close>; what
  \<^verbatim>\<open>window[name]\<close> reads for a name that is not a string depends on the engine's
  conversion of the value to a property key and is not modelled (\<open>NameNotString\<close>).
\<close>

datatype evaluation = Evaluated window | Threw | NameNotString

text \<open>
  \<^verbatim>\<open>window[name]['callbacks'].get(seq).resolve(result)\<close> (or \<^verbatim>\<open>.reject\<close>), then
  \<^verbatim>\<open>window[name]['callbacks'].delete(seq)\<close>. The keys of the map are the numbers
  \<^verbatim>\<open>addPageBinding\<close> put there, so \<^verbatim>\<open>get\<close> finds nothing for a \<open>seq\<close> that is not one
  of them, and the call on its result throws.
\<close>

definition settle :: "window \<Rightarrow> json \<Rightarrow> json \<Rightarrow> settlement \<Rightarrow> evaluation" where
  "settle w nm seq outcome =
     (case nm of
        JStr s \<Rightarrow>
          (case w s of
             None \<Rightarrow> Threw
           | Some me \<Rightarrow>
               (case seq of
                  JNum k \<Rightarrow>
                    if k \<in> set (callbacks me) then
                      Evaluated (w(s \<mapsto> me\<lparr>callbacks := removeAll k (callbacks me),
                                               promises := (promises me)(k \<mapsto> outcome)\<rparr>))
                    else Threw
                | _ \<Rightarrow> Threw))
      | _ \<Rightarrow> NameNotString)"

fun deliver :: "window \<Rightarrow> delivery \<Rightarrow> evaluation" where
  "deliver w (DeliverResult nm seq result) = settle w nm seq (Fulfilled result)"
| "deliver w (DeliverError nm seq message stack) = settle w nm seq (RejectedError message stack)"
| "deliver w (DeliverErrorValue nm seq v) = settle w nm seq (RejectedValue v)"

text \<open>The promise state a delivery leaves behind, by the outcome of the host function.\<close>

fun settlementOf :: "thrown + json \<Rightarrow> settlement" where
  "settlementOf (Inr v) = Fulfilled v"
| "settlementOf (Inl (ErrorObject message stack)) = RejectedError message stack"
| "settlementOf (Inl (ThrownValue v)) = RejectedValue v"

text \<open>\<^verbatim>\<open>String.prototype.includes\<close>, used to state what an error message says.\<close>

definition stringIncludes :: "string \<Rightarrow> string \<Rightarrow> bool" where
  "stringIncludes s sub = list_ex (\<lambda>i. take (length sub) (drop i s) = sub) [0..<Suc (length s)]"

text \<open>
  Two host functions for the round trip: \<^verbatim>\<open>(a, b) => a + b\<close> on the arguments the
  example gives it, two numbers (JavaScript's \<^verbatim>\<open>+\<close> on other arguments is not
  modelled; the function is only ever applied to two numbers), and a function that throws
  an \<^verbatim>\<open>Error\<close>.
\<close>

definition example_sum :: "json list \<Rightarrow> thrown + json" where
  "example_sum args = (case args of [JNum a, JNum b] \<Rightarrow> Inr (JNum (a + b)) | _ \<Rightarrow> Inr JUndefined)"

definition example_throw :: "json list \<Rightarrow> thrown + json" where
  "example_throw args = Inl (ErrorObject ''boom'' (Some ''Error: boom at host''))"

section \<open>Target registry of the Chromium backend (chromium/crBrowser.ts: CRBrowser)\<close>

text \<open>
  \<^verbatim>\<open>Protocol.Target.TargetInfo\<close>, the fields the browser reads. \<open>targetType\<close> is the
  field \<^verbatim>\<open>type\<close>. An optional field that is absent is \<open>None\<close>.
\<close>

record targetInfo =
  targetId :: string
  targetType :: string
  openerId :: "string option"
  browserContextId :: "string option"

text \<open>
  \<^verbatim>\<open>class CRTarget\<close> is not among the sources at hand; a target is recorded by the
  arguments \<^verbatim>\<open>_createTarget\<close> constructs it from. Browser contexts (\<open>'c\<close>) and
  sessions (\<open>'s\<close>) are objects the registry only passes on.
\<close>

record ('c, 's) CRTarget =
  target_info :: targetInfo
  target_context :: 'c
  target_session :: "'s option"
  hasInitialAboutBlank :: bool

record ('c, 's) CRBrowser =
  defaultContext :: 'c
  contexts :: "string \<rightharpoonup> 'c"
  targets :: "string \<rightharpoonup> ('c, 's) CRTarget"
  popupOpeners :: "string list"

text \<open>
  An optional string used as a condition, as in \<^verbatim>\<open>targetInfo.openerId && ...\<close>:
  \<^verbatim>\<open>undefined\<close> and the empty string are falsy.
\<close>

definition truthy :: "string option \<Rightarrow> bool" where
  "truthy s = (case s of None \<Rightarrow> False | Some v \<Rightarrow> v \<noteq> [])"

text \<open>\<^verbatim>\<open>Array.prototype.indexOf\<close>: the first index of the element, or -1.\<close>

fun indexOf :: "'a list \<Rightarrow> 'a \<Rightarrow> int" where
  "indexOf [] x = - 1"
| "indexOf (y # ys) x =
     (if y = x then 0
      else (let i = indexOf ys x in if i = - 1 then - 1 else i + 1))"

text \<open>\<^verbatim>\<open>xs.splice(i, 1)\<close> for an index \<open>i\<close> that \<^verbatim>\<open>indexOf\<close> returned and is not -1.\<close>

definition splice1 :: "'a list \<Rightarrow> int \<Rightarrow> 'a list" where
  "splice1 xs i = take (nat i) xs @ drop (nat i + 1) xs"

text \<open>\<^verbatim>\<open>String.prototype.startsWith\<close>.\<close>

definition startsWith :: "string \<Rightarrow> string \<Rightarrow> bool" where
  "startsWith s p = (take (length p) s = p)"

text \<open>\<^verbatim>\<open>Protocol.Page.windowOpenPayload\<close>, the fields \<^verbatim>\<open>_onWindowOpen\<close> reads.\<close>

record windowOpenPayload =
  windowOpen_url :: string
  windowFeatures :: "string list"

definition onWindowOpen :: "('c, 's) CRBrowser \<Rightarrow> string \<Rightarrow> windowOpenPayload \<Rightarrow> ('c, 's) CRBrowser" where
  "onWindowOpen browser opener payload =
     (if ''noopener'' \<in> set (windowFeatures payload) \<and> startsWith (windowOpen_url payload) ''about:blank''
      then browser
      else browser\<lparr>popupOpeners := popupOpeners browser @ [opener]\<rparr>)"

text \<open>
  Modelled from the spec: \<^verbatim>\<open>assert\<close> of helper.ts is not among the sources at hand. The
  spec calls a failed assertion a fatal invariant violation that rejects the operation
  synchronously; the model is an exception carrying the assertion's message.
\<close>

definition assert :: "bool \<Rightarrow> string \<Rightarrow> string + unit" where
  "assert condition message = (if condition then Inr () else Inl message)"

text \<open>
  \<^verbatim>\<open>CRBrowser._createTarget\<close>. \<^verbatim>\<open>CRTarget.isPageType\<close> is not among the sources and
  is the parameter \<open>isPageType\<close>. The result pairs the outcome (\<open>Inl\<close> the message of the
  failed assertion, \<open>Inr\<close> the returned \<^verbatim>\<open>{ context, target }\<close>) with the browser as the
  call leaves it: the opener queue is spliced before the assertion runs.
\<close>

definition createTarget ::
  "(string \<Rightarrow> bool) \<Rightarrow> ('c, 's) CRBrowser \<Rightarrow> targetInfo \<Rightarrow> 's option
     \<Rightarrow> (string + 'c \<times> ('c, 's) CRTarget) \<times> ('c, 's) CRBrowser" where
  "createTarget isPageType browser info session =
     (let ctx =
            (case browserContextId info of
               None \<Rightarrow> defaultContext browser
             | Some c \<Rightarrow>
                 (if c \<noteq> [] \<and> c \<in> dom (contexts browser) then the (contexts browser c)
                  else defaultContext browser));
          openerIndex =
            (if isPageType (targetType info) \<and> truthy (openerId info)
             then indexOf (popupOpeners browser) (the (openerId info))
             else - 1);
          browser1 =
            (if openerIndex \<noteq> - 1
             then browser\<lparr>popupOpeners := splice1 (popupOpeners browser) openerIndex\<rparr>
             else browser);
          target = \<lparr>target_info = info, target_context = ctx, target_session = session,
                    hasInitialAboutBlank = (openerIndex \<noteq> - 1)\<rparr>
      in case assert (targetId info \<notin> dom (targets browser1))
                ''Target should not exist before targetCreated'' of
           Inl message \<Rightarrow> (Inl message, browser1)
         | Inr _ \<Rightarrow>
             (Inr (ctx, target),
              browser1\<lparr>targets := (targets browser1)(targetId info \<mapsto> target)\<rparr>))"

text \<open>
  A run of \<^verbatim>\<open>_createTarget\<close> calls, one per event, each on the browser the call before
  it left behind, whether that call returned or threw.
\<close>

fun createTargets ::
  "(string \<Rightarrow> bool) \<Rightarrow> ('c, 's) CRBrowser \<Rightarrow> (targetInfo \<times> 's option) list \<Rightarrow> ('c, 's) CRBrowser" where
  "createTargets isPageType browser [] = browser"
| "createTargets isPageType browser ((info, session) # events) =
     createTargets isPageType (snd (createTarget isPageType browser info session)) events"

text \<open>
  The implicit-initial-about-blank flag of the target a call of \<^verbatim>\<open>_createTarget\<close>
  constructed; \<open>None\<close> when the call threw.
\<close>

definition implicitBlank :: "(string + 'c \<times> ('c, 's) CRTarget) \<Rightarrow> bool option" where
  "implicitBlank outcome =
     (case outcome of Inl message \<Rightarrow> None | Inr (ctx, target) \<Rightarrow> Some (hasInitialAboutBlank target))"

text \<open>
  A reported browser-context id that resolves to no registered context: not reported,
  empty (falsy, so the registry is not consulted), or not a key of the registry.
\<close>

definition unknownContext :: "(string \<rightharpoonup> 'c) \<Rightarrow> string option \<Rightarrow> bool" where
  "unknownContext registry reported =
     (case reported of None \<Rightarrow> True | Some c \<Rightarrow> c = [] \<or> registry c = None)"

text \<open>
  The synchronous part of \<^verbatim>\<open>CRBrowser._onAttachedToTarget\<close>: what it returns to the
  construction of the page.
\<close>

datatype ('c, 's) attached =
    NotSurfaced bool
  | Surfaced 'c "('c, 's) CRTarget"

definition onAttachedToTarget ::
  "(string \<Rightarrow> bool) \<Rightarrow> ('c, 's) CRBrowser \<Rightarrow> targetInfo \<Rightarrow> 's option \<Rightarrow> bool
     \<Rightarrow> (string + ('c, 's) attached) \<times> ('c, 's) CRBrowser" where
  "onAttachedToTarget isPageType browser info session waitingForDebugger =
     (if \<not> isPageType (targetType info) then
        (case assert (targetType info = ''service_worker'' \<or> targetType info = ''browser''
                        \<or> targetType info = ''other'') [] of
           Inl message \<Rightarrow> (Inl message, browser)
         | Inr _ \<Rightarrow> (Inr (NotSurfaced waitingForDebugger), browser))
      else
        (case createTarget isPageType browser info session of
           (Inl message, browser1) \<Rightarrow> (Inl message, browser1)
         | (Inr (ctx, target), browser1) \<Rightarrow> (Inr (Surfaced ctx target), browser1)))"

text \<open>
  The deferred result \<^verbatim>\<open>pageOrError()\<close> of a target: a promise that is still pending
  or has been fulfilled with a page or with an \<^verbatim>\<open>Error\<close> (\<^verbatim>\<open>newPage\<close> and the popup
  branch tell the two apart with \<^verbatim>\<open>instanceof Page\<close>).
\<close>

datatype 'p page_or_error = IsPage 'p | IsError string

datatype 'p deferred = Unsettled | Completed "'p page_or_error"

datatype event_name = BrowserContextPage | BrowserContextBackgroundPage | PagePopup

text \<open>
  What the browser signals and emits. A \<^verbatim>\<open>PageEvent\<close> is built from the context and the
  target's \<^verbatim>\<open>pageOrError()\<close>; the notification carries what that promise was fulfilled with.
\<close>

datatype ('c, 'p) notification =
    FirstPageCallback
  | ContextEmit 'c event_name "'p page_or_error"
  | PageEmit 'p event_name "'p page_or_error"

text \<open>
  \<^verbatim>\<open>await opener.pageOrError()\<close> followed by the \<^verbatim>\<open>instanceof Page\<close> and
  \<^verbatim>\<open>isClosed()\<close> test: \<open>opener\<close> is \<open>None\<close> when the target has no opener, else the
  opener's deferred result.
\<close>

definition popupNotification ::
  "('p \<Rightarrow> bool) \<Rightarrow> 'p deferred option \<Rightarrow> 'p page_or_error \<Rightarrow> ('c, 'p) notification list" where
  "popupNotification isClosed opener pageEvent =
     (case opener of
        None \<Rightarrow> []
      | Some Unsettled \<Rightarrow> []
      | Some (Completed (IsError e)) \<Rightarrow> []
      | Some (Completed (IsPage openerPage)) \<Rightarrow>
          if \<not> isClosed openerPage then [PageEmit openerPage PagePopup pageEvent] else [])"

text \<open>
  The callback \<^verbatim>\<open>_onAttachedToTarget\<close> chains to \<^verbatim>\<open>target.pageOrError()\<close> with
  \<^verbatim>\<open>.then\<close>: nothing while the promise is pending, and once it is fulfilled the body of
  the callback, which takes no argument.
\<close>

definition attachedNotifications ::
  "string \<Rightarrow> 'c \<Rightarrow> ('p \<Rightarrow> bool) \<Rightarrow> 'p deferred option \<Rightarrow> 'p deferred \<Rightarrow> ('c, 'p) notification list" where
  "attachedNotifications ttype ctx isClosed opener pageOrError =
     (case pageOrError of
        Unsettled \<Rightarrow> []
      | Completed pageEvent \<Rightarrow>
          if ttype = ''page'' then
            FirstPageCallback # ContextEmit ctx BrowserContextPage pageEvent
              # popupNotification isClosed opener pageEvent
          else if ttype = ''background_page'' then
            [ContextEmit ctx BrowserContextBackgroundPage pageEvent]
          else [])"

text \<open>
  The steps of a target's destruction, in program order. \<open>DidClose\<close> records whether the
  registry still held the target when the close was applied.
\<close>

datatype lifecycle_step =
    DeleteFromRegistry string
  | DidClose string bool
  | Dispose string

definition targetDestroyed ::
  "('c, 's) CRBrowser \<Rightarrow> string \<Rightarrow> ('c, 's) CRBrowser \<times> lifecycle_step list" where
  "targetDestroyed browser tid =
     (case targets browser tid of
        None \<Rightarrow> (browser, [])
      | Some target \<Rightarrow>
          (let browser1 = browser\<lparr>targets := (targets browser)(tid := None)\<rparr>
           in (browser1, [DeleteFromRegistry tid, DidClose tid (tid \<in> dom (targets browser1))])))"

section \<open>Page registry of the WebKit backend (WKBrowser)\<close>

text \<open>\<^verbatim>\<open>Protocol.Playwright.pageProxyCreatedPayload.pageProxyInfo\<close>.\<close>

record pageProxyInfo =
  pageProxyId :: string
  proxy_browserContextId :: "string option"
  proxy_openerId :: "string option"

text \<open>
  A \<^verbatim>\<open>WKPage\<close> by the arguments it is constructed from; the opener, an object of the
  registry, is named by its id.
\<close>

record 'c WKPage =
  wkPage_context :: 'c
  wkPage_opener :: "string option"
  wkPage_hasInitialAboutBlank :: bool

record 'c WKBrowser =
  attachToDefaultContext :: bool
  wk_defaultContext :: 'c
  wk_contexts :: "string \<rightharpoonup> 'c"
  wkPages :: "string \<rightharpoonup> 'c WKPage"
  wk_popupOpeners :: "string list"

definition wk_onWindowOpen :: "'c WKBrowser \<Rightarrow> string \<Rightarrow> 'c WKBrowser" where
  "wk_onWindowOpen browser proxyId = browser\<lparr>wk_popupOpeners := wk_popupOpeners browser @ [proxyId]\<rparr>"

text \<open>
  \<^verbatim>\<open>WKBrowser._onPageProxyCreated\<close>, its synchronous part: the page it registered
  (\<open>None\<close> when it returned early) and the browser afterwards.
\<close>

definition onPageProxyCreated :: "'c WKBrowser \<Rightarrow> pageProxyInfo \<Rightarrow> 'c WKPage option \<times> 'c WKBrowser" where
  "onPageProxyCreated browser info =
     (let found =
            (if truthy (proxy_browserContextId info)
             then wk_contexts browser (the (proxy_browserContextId info))
             else None)
      in case (found, attachToDefaultContext browser) of
           (None, False) \<Rightarrow> (None, browser)
         | _ \<Rightarrow>
             (let ctx = (case found of None \<Rightarrow> wk_defaultContext browser | Some c \<Rightarrow> c);
                  opener =
                    (if truthy (proxy_openerId info) \<and> the (proxy_openerId info) \<in> dom (wkPages browser)
                     then proxy_openerId info else None);
                  openerIndex =
                    (if truthy (proxy_openerId info)
                     then indexOf (wk_popupOpeners browser) (the (proxy_openerId info))
                     else - 1);
                  browser1 =
                    (if openerIndex \<noteq> - 1
                     then browser\<lparr>wk_popupOpeners := splice1 (wk_popupOpeners browser) openerIndex\<rparr>
                     else browser);
                  wkPage = \<lparr>wkPage_context = ctx, wkPage_opener = opener,
                            wkPage_hasInitialAboutBlank = (openerIndex \<noteq> - 1)\<rparr>
              in (Some wkPage, browser1\<lparr>wkPages := (wkPages browser1)(pageProxyId info \<mapsto> wkPage)\<rparr>)))"

text \<open>
  The page proxies \<^verbatim>\<open>_onPageProxyCreated\<close> does not return early on: the browser
  attaches to the default context, or the reported context is a registered one.
\<close>

definition surfaces :: "'c WKBrowser \<Rightarrow> pageProxyInfo \<Rightarrow> bool" where
  "surfaces browser info =
     (attachToDefaultContext browser \<or> \<not> unknownContext (wk_contexts browser) (proxy_browserContextId info))"

text \<open>The callback chained to \<^verbatim>\<open>wkPage.pageOrError()\<close> in \<^verbatim>\<open>_onPageProxyCreated\<close>.\<close>

definition pageProxyNotifications ::
  "'c \<Rightarrow> ('p \<Rightarrow> bool) \<Rightarrow> 'p deferred option \<Rightarrow> 'p deferred \<Rightarrow> ('c, 'p) notification list" where
  "pageProxyNotifications ctx isClosed opener pageOrError =
     (case pageOrError of
        Unsettled \<Rightarrow> []
      | Completed pageEvent \<Rightarrow>
          FirstPageCallback # ContextEmit ctx BrowserContextPage pageEvent
            # popupNotification isClosed opener pageEvent)"

definition onPageProxyDestroyed :: "'c WKBrowser \<Rightarrow> string \<Rightarrow> 'c WKBrowser \<times> lifecycle_step list" where
  "onPageProxyDestroyed browser proxyId =
     (case wkPages browser proxyId of
        None \<Rightarrow> (browser, [])
      | Some wkPage \<Rightarrow>
          (browser\<lparr>wkPages := (wkPages browser)(proxyId := None)\<rparr>,
           [DidClose proxyId (proxyId \<in> dom (wkPages browser)), Dispose proxyId,
            DeleteFromRegistry proxyId]))"

section \<open>Context options (browserContext.ts: validateBrowserContextOptions, verifyGeolocation)\<close>

text \<open>
  A JavaScript \<^verbatim>\<open>number\<close>. The options are only compared with constants, which is exact
  on doubles, so a finite number is modelled by the real it denotes; the three values that
  are not finite are kept apart, since comparisons treat them in their own way.
\<close>

datatype jsnum = Finite real | PosInfinity | NegInfinity | NaN

text \<open>The operator \<^verbatim>\<open><\<close> on numbers; \<^verbatim>\<open>a > b\<close> is \<open>js_less b a\<close>.\<close>

fun js_less :: "jsnum \<Rightarrow> jsnum \<Rightarrow> bool" where
  "js_less NaN b = False"
| "js_less a NaN = False"
| "js_less (Finite x) (Finite y) = (x < y)"
| "js_less (Finite x) PosInfinity = True"
| "js_less (Finite x) NegInfinity = False"
| "js_less PosInfinity b = False"
| "js_less NegInfinity NegInfinity = False"
| "js_less NegInfinity b = True"

text \<open>\<^verbatim>\<open>x || 0\<close> for an optional number: \<^verbatim>\<open>undefined\<close>, 0 and \<^verbatim>\<open>NaN\<close> are falsy.\<close>

fun orZero :: "jsnum option \<Rightarrow> jsnum" where
  "orZero None = Finite 0"
| "orZero (Some NaN) = Finite 0"
| "orZero (Some (Finite x)) = (if x = 0 then Finite 0 else Finite x)"
| "orZero (Some n) = n"

text \<open>\<^verbatim>\<open>types.Geolocation\<close> and \<^verbatim>\<open>types.Size\<close>.\<close>

record Geolocation =
  longitude :: jsnum
  latitude :: jsnum
  accuracy :: "jsnum option"

record Size =
  width :: jsnum
  height :: jsnum

text \<open>
  What validation throws: the three errors of \<^verbatim>\<open>verifyGeolocation\<close>, each with the
  value its message quotes, and whatever \<^verbatim>\<open>network.verifyHeaders\<close> throws.
\<close>

datatype 'e validation_error =
    InvalidLongitude jsnum
  | InvalidLatitude jsnum
  | InvalidAccuracy jsnum
  | InvalidHeaders 'e

text \<open>
  \<^verbatim>\<open>verifyGeolocation\<close>. \<^verbatim>\<open>helper.isNumber\<close> is not among the sources at hand and is
  the parameter \<open>isNumber\<close>.
\<close>

definition verifyGeolocation :: "(jsnum \<Rightarrow> bool) \<Rightarrow> Geolocation \<Rightarrow> 'e validation_error + Geolocation" where
  "verifyGeolocation isNumber geolocation =
     (let result = geolocation\<lparr>accuracy := Some (orZero (accuracy geolocation))\<rparr>;
          lon = longitude result; lat = latitude result; acc = orZero (accuracy geolocation)
      in if \<not> isNumber lon \<or> js_less lon (Finite (- 180)) \<or> js_less (Finite 180) lon then
           Inl (InvalidLongitude lon)
         else if \<not> isNumber lat \<or> js_less lat (Finite (- 90)) \<or> js_less (Finite 90) lat then
           Inl (InvalidLatitude lat)
         else if \<not> isNumber acc \<or> js_less acc (Finite 0) then
           Inl (InvalidAccuracy acc)
         else Inr result)"

text \<open>
  The bounds in the words of the claim, to compare \<^verbatim>\<open>verifyGeolocation\<close> with: a
  longitude in [-180, 180], a latitude in [-90, 90], and an accuracy, 0 when it is absent
  or falsy, that is at least 0.
\<close>

fun inRange :: "real \<Rightarrow> real \<Rightarrow> jsnum \<Rightarrow> bool" where
  "inRange lo hi (Finite x) = (lo \<le> x \<and> x \<le> hi)"
| "inRange lo hi n = False"

fun nonNegative :: "jsnum \<Rightarrow> bool" where
  "nonNegative (Finite x) = (0 \<le> x)"
| "nonNegative PosInfinity = True"
| "nonNegative n = False"

definition geolocationValid :: "Geolocation \<Rightarrow> bool" where
  "geolocationValid g =
     (inRange (- 180) 180 (longitude g) \<and> inRange (- 90) 90 (latitude g) \<and> nonNegative (orZero (accuracy g)))"

text \<open>
  The field \<^verbatim>\<open>viewport?: types.Size | null\<close>: absent, \<^verbatim>\<open>null\<close>, or a reference to a
  \<^verbatim>\<open>Size\<close> object. Viewport objects live in a store, a list indexed by address, so that
  a copy and an alias differ; an allocation appends to it.
\<close>

datatype viewport_field = Absent | IsNull | Object nat

text \<open>
  \<^verbatim>\<open>BrowserContextOptions\<close>; an optional field that is absent is \<open>None\<close>. The type
  \<^verbatim>\<open>network.Headers\<close> is not among the sources at hand and is the parameter \<open>'h\<close>;
  \<^verbatim>\<open>types.Credentials\<close> is a user name and a password.
\<close>

record 'h BrowserContextOptions =
  viewport :: viewport_field
  ignoreHTTPSErrors :: "bool option"
  javaScriptEnabled :: "bool option"
  bypassCSP :: "bool option"
  userAgent :: "string option"
  locale' :: "string option"
  timezoneId :: "string option"
  geolocation :: "Geolocation option"
  permissions :: "string list option"
  extraHTTPHeaders :: "'h option"
  offline :: "bool option"
  httpCredentials :: "(string \<times> string) option"
  deviceScaleFactor :: "jsnum option"
  isMobile :: "bool option"
  hasTouch :: "bool option"

text \<open>
  \<^verbatim>\<open>validateBrowserContextOptions\<close>. \<^verbatim>\<open>network.verifyHeaders\<close> is not among the sources
  at hand and is the parameter \<open>verifyHeaders\<close>. The result is the exception thrown or the
  returned copy with the store after the two allocations the function can make.
\<close>

definition validateBrowserContextOptions ::
  "(jsnum \<Rightarrow> bool) \<Rightarrow> ('h \<Rightarrow> 'e + 'h) \<Rightarrow> Size list \<Rightarrow> 'h BrowserContextOptions
     \<Rightarrow> 'e validation_error + 'h BrowserContextOptions \<times> Size list" where
  "validateBrowserContextOptions isNumber verifyHeaders store options =
     (let (viewport1, store1) =
            (case viewport options of
               Absent \<Rightarrow> (Object (length store), store @ [\<lparr>width = Finite 1280, height = Finite 720\<rparr>])
             | v \<Rightarrow> (v, store));
          (viewport2, store2) =
            (case viewport1 of
               Object a \<Rightarrow> (Object (length store1), store1 @ [store1 ! a])
             | v \<Rightarrow> (v, store1))
      in case (case geolocation options of
                 None \<Rightarrow> Inr None
               | Some g \<Rightarrow>
                   (case verifyGeolocation isNumber g of Inl e \<Rightarrow> Inl e | Inr g' \<Rightarrow> Inr (Some g'))) of
           Inl e \<Rightarrow> Inl e
         | Inr geolocation' \<Rightarrow>
             (case (case extraHTTPHeaders options of
                      None \<Rightarrow> Inr None
                    | Some h \<Rightarrow>
                        (case verifyHeaders h of Inl e \<Rightarrow> Inl (InvalidHeaders e) | Inr h' \<Rightarrow> Inr (Some h'))) of
                Inl e \<Rightarrow> Inl e
              | Inr headers' \<Rightarrow>
                  Inr (options\<lparr>viewport := viewport2, geolocation := geolocation',
                                extraHTTPHeaders := headers'\<rparr>, store2)))"

section \<open>Properties of the request router\<close>

lemma firstMatch_matching:
  "firstMatch um u rs = (case matching um u rs of [] \<Rightarrow> None | r # _ \<Rightarrow> Some (handler r))"
  by (induction rs) (simp_all add: matching_def)

lemma firstMatch_skip:
  "\<forall>b\<in>set pre. \<not> um u (url b) \<Longrightarrow> firstMatch um u (pre @ rs) = firstMatch um u rs"
  by (induction pre) simp_all

lemma firstMatch_none: "firstMatch um u rs = None \<longleftrightarrow> matching um u rs = []"
  by (simp add: firstMatch_matching split: list.splits)

lemma firstMatch_hit:
  "\<forall>b\<in>set pre. \<not> um u (url b) \<Longrightarrow> um u (url r)
     \<Longrightarrow> firstMatch um u (pre @ r # post) = Some (handler r)"
  by (simp add: firstMatch_skip)

text \<open>
  Claim C1. For an intercepted request (one with a route), the router walks the page's
  routes in registration order and invokes the handler of the first entry whose pattern
  matches the request's URL, whatever stands after that entry and whatever the context
  has registered; only when no page route matches does the first matching entry of the
  context's routes get the request. Two routes registered one after the other with
  \<^verbatim>\<open>Page.route\<close>, both matching and with no matching route before them: the router
  invokes the handler of the first and no other.
\<close>

theorem router_first_match_wins:
  assumes "request_route request = Some rt"
  shows "(\<forall>pre (r :: ('m, 'h) route_entry) post.
            (\<forall>b\<in>set pre. \<not> um (request_url request) (url b)) \<and> um (request_url request) (url r) \<longrightarrow>
            requestStarted um (pre @ r # post) contextRoutes request
              = [EmitRequest, InvokeHandler (handler r) rt])
       \<and> (\<forall>pre (r :: ('m, 'h) route_entry) post.
            matching um (request_url request) pageRoutes = [] \<and>
            (\<forall>b\<in>set pre. \<not> um (request_url request) (url b)) \<and> um (request_url request) (url r) \<longrightarrow>
            requestStarted um pageRoutes (pre @ r # post) request
              = [EmitRequest, InvokeHandler (handler r) rt])
       \<and> (\<forall>rs u1 h1 u2 h2.
            (\<forall>b\<in>set rs. \<not> um (request_url request) (url b)) \<and>
            um (request_url request) u1 \<and> um (request_url request) u2 \<longrightarrow>
            invoked (requestStarted um (route (route rs u1 h1) u2 h2) contextRoutes request) = [h1])"
proof (intro conjI allI impI)
  fix pre post :: "('m, 'h) route_entry list" and r :: "('m, 'h) route_entry"
  assume "(\<forall>b\<in>set pre. \<not> um (request_url request) (url b)) \<and> um (request_url request) (url r)"
  then have "firstMatch um (request_url request) (pre @ r # post) = Some (handler r)"
    by (simp add: firstMatch_hit)
  with assms show "requestStarted um (pre @ r # post) contextRoutes request
      = [EmitRequest, InvokeHandler (handler r) rt]"
    by (simp add: requestStarted_def)
next
  fix pre post :: "('m, 'h) route_entry list" and r :: "('m, 'h) route_entry"
  assume a: "matching um (request_url request) pageRoutes = [] \<and>
    (\<forall>b\<in>set pre. \<not> um (request_url request) (url b)) \<and> um (request_url request) (url r)"
  then have "firstMatch um (request_url request) pageRoutes = None"
    by (simp add: firstMatch_none)
  moreover from a have "firstMatch um (request_url request) (pre @ r # post) = Some (handler r)"
    by (simp add: firstMatch_hit)
  ultimately show "requestStarted um pageRoutes (pre @ r # post) request
      = [EmitRequest, InvokeHandler (handler r) rt]"
    using assms by (simp add: requestStarted_def)
next
  fix rs :: "('m, 'h) route_entry list" and u1 h1 u2 h2
  assume a: "(\<forall>b\<in>set rs. \<not> um (request_url request) (url b)) \<and>
            um (request_url request) u1 \<and> um (request_url request) u2"
  have "route (route rs u1 h1) u2 h2 = rs @ \<lparr>url = u1, handler = h1\<rparr> # [\<lparr>url = u2, handler = h2\<rparr>]"
    by (simp add: route_def)
  moreover from a have "firstMatch um (request_url request)
      (rs @ \<lparr>url = u1, handler = h1\<rparr> # [\<lparr>url = u2, handler = h2\<rparr>]) = Some h1"
    using firstMatch_hit[of rs um "request_url request" "\<lparr>url = u1, handler = h1\<rparr>"] by simp
  ultimately show "invoked (requestStarted um (route (route rs u1 h1) u2 h2) contextRoutes request) = [h1]"
    using assms by (simp add: requestStarted_def)
qed

theorem router_first_match_wins_witness:
  "requestStarted (\<lambda>u p. u = p) [\<lparr>url = ''/a'', handler = 1::nat\<rparr>, \<lparr>url = ''/a'', handler = 2\<rparr>]
      [\<lparr>url = ''/a'', handler = 3\<rparr>] \<lparr>request_url = ''/a'', request_route = Some ()\<rparr>
     = [EmitRequest, InvokeHandler 1 ()]
   \<and> requestStarted (\<lambda>u p. u = p) [\<lparr>url = ''/b'', handler = 1::nat\<rparr>]
      [\<lparr>url = ''/c'', handler = 2\<rparr>, \<lparr>url = ''/a'', handler = 3\<rparr>] \<lparr>request_url = ''/a'', request_route = Some ()\<rparr>
     = [EmitRequest, InvokeHandler 3 ()]
   \<and> invoked (requestStarted (\<lambda>u p. u = p) (route (route [] ''/a'' (1::nat)) ''/a'' 2) []
        \<lparr>request_url = ''/a'', request_route = Some ()\<rparr>) = [1]"
  using router_first_match_wins[of "\<lparr>request_url = ''/a'', request_route = Some ()\<rparr>" "()" "\<lambda>u p. u = p"
      "[\<lparr>url = ''/a'', handler = 3::nat\<rparr>]" "[\<lparr>url = ''/b'', handler = 1::nat\<rparr>]"]
  by (simp add: requestStarted_def route_def)

text \<open>
  Claim C2. For an intercepted request the router invokes exactly the handler of the first
  matching entry of the page's routes followed by the context's routes, and it resumes the
  request (\<^verbatim>\<open>route.continue()\<close>) exactly when no entry of either list matches; in every
  case the number of handlers invoked plus the number of times the request is resumed is
  one: never both, never neither.
\<close>

theorem router_exactly_one_outcome:
  assumes "request_route request = Some rt"
  shows "invoked (requestStarted um pageRoutes contextRoutes request)
           = map handler (take 1 (matching um (request_url request) (pageRoutes @ contextRoutes)))
       \<and> continued (requestStarted um pageRoutes contextRoutes request)
           = (if matching um (request_url request) (pageRoutes @ contextRoutes) = [] then [rt] else [])
       \<and> length (invoked (requestStarted um pageRoutes contextRoutes request))
           + length (continued (requestStarted um pageRoutes contextRoutes request)) = 1"
  using assms
  by (auto simp: requestStarted_def firstMatch_matching matching_def split: list.splits option.splits)

theorem router_exactly_one_outcome_witness:
  "invoked (requestStarted (\<lambda>u p. u = p) [\<lparr>url = ''/b'', handler = 1::nat\<rparr>] [\<lparr>url = ''/c'', handler = 2\<rparr>]
      \<lparr>request_url = ''/a'', request_route = Some ()\<rparr>) = []
   \<and> continued (requestStarted (\<lambda>u p. u = p) [\<lparr>url = ''/b'', handler = 1::nat\<rparr>] [\<lparr>url = ''/c'', handler = 2\<rparr>]
      \<lparr>request_url = ''/a'', request_route = Some ()\<rparr>) = [()]"
  using router_exactly_one_outcome[of "\<lparr>request_url = ''/a'', request_route = Some ()\<rparr>" "()"
      "\<lambda>u p. u = p" "[\<lparr>url = ''/b'', handler = 1::nat\<rparr>]" "[\<lparr>url = ''/c'', handler = 2\<rparr>]"]
  by (simp add: matching_def)

section \<open>Properties of the exposed-function bindings\<close>

lemma stringIncludes_middle: "stringIncludes (a @ sub @ b) sub"
  unfolding stringIncludes_def list_ex_iff
  by (rule bexI[of _ "length a"]) simp_all

lemma stringIncludes_suffix: "stringIncludes (a @ sub) sub"
  using stringIncludes_middle[of a sub "[]"] by simp

lemma dispatch_registered:
  assumes "lookupBinding p c (JStr nm) = Some b"
  shows "dispatch fault p c [''name'' \<mapsto> JStr nm, ''seq'' \<mapsto> s, ''args'' \<mapsto> JArr as]
       = (case playwrightFunction b as of
            Inr v \<Rightarrow> DeliverResult (JStr nm) s v
          | Inl (ErrorObject m st) \<Rightarrow> DeliverError (JStr nm) s m st
          | Inl (ThrownValue v) \<Rightarrow> DeliverErrorValue (JStr nm) s v)"
  using assms by (simp add: dispatch_def getProp_def spread_def Let_def)

lemma deliver_settles:
  assumes "w nm = Some me" "k \<in> set (callbacks me)"
  shows "deliver w (case r of
            Inr v \<Rightarrow> DeliverResult (JStr nm) (JNum k) v
          | Inl (ErrorObject m st) \<Rightarrow> DeliverError (JStr nm) (JNum k) m st
          | Inl (ThrownValue v) \<Rightarrow> DeliverErrorValue (JStr nm) (JNum k) v)
      = Evaluated (w(nm \<mapsto> me\<lparr>callbacks := removeAll k (callbacks me),
                                  promises := (promises me)(k \<mapsto> settlementOf r)\<rparr>))"
  using assms by (auto simp: settle_def split: sum.splits thrown.splits)

text \<open>
  Claim C3, as amended: the payload names the sequence number \<^verbatim>\<open>seq\<close>, the key
  \<^verbatim>\<open>dispatch\<close> destructures and \<^verbatim>\<open>addPageBinding\<close> writes. After a successful
  \<^verbatim>\<open>exposeFunction\<close> of a host function \<open>f\<close> under a name, dispatching the payload
  \<^verbatim>\<open>{name, seq, args}\<close> calls \<open>f\<close> on the arguments and delivers, under the same name and
  \<open>seq\<close>: the result when \<open>f\<close> returns one, the message and stack when \<open>f\<close> throws an
  \<^verbatim>\<open>Error\<close>, the thrown value itself otherwise. Evaluated in a window where the call
  numbered \<open>seq\<close> is pending, the delivery settles the promise of that call accordingly and
  removes its callback. With the host function \<^verbatim>\<open>(a, b) => a + b\<close> and the payload
  \<^verbatim>\<open>{name: "sum", seq: 1, args: [2, 3]}\<close> the delivery is a success with value 5 for
  sequence 1, as the instance after the theorem shows.
\<close>

theorem binding_round_trip:
  assumes "exposeFunction pageBindings contextBindings nm f = (Inr b, pageBindings')"
  shows "dispatch fault pageBindings' contextBindings [''name'' \<mapsto> JStr nm, ''seq'' \<mapsto> s, ''args'' \<mapsto> JArr as]
           = (case f as of
                Inr v \<Rightarrow> DeliverResult (JStr nm) s v
              | Inl (ErrorObject message stack) \<Rightarrow> DeliverError (JStr nm) s message stack
              | Inl (ThrownValue v) \<Rightarrow> DeliverErrorValue (JStr nm) s v)
       \<and> (\<forall>w me k. w nm = Some me \<and> k \<in> set (callbacks me) \<and> s = JNum k \<longrightarrow>
            deliver w (dispatch fault pageBindings' contextBindings
                         [''name'' \<mapsto> JStr nm, ''seq'' \<mapsto> s, ''args'' \<mapsto> JArr as])
              = Evaluated (w(nm \<mapsto> me\<lparr>callbacks := removeAll k (callbacks me),
                                          promises := (promises me)(k \<mapsto> settlementOf (f as))\<rparr>)))"
proof -
  from assms have b: "b = \<lparr>name = nm, playwrightFunction = f\<rparr>" and p': "pageBindings' = pageBindings(nm \<mapsto> b)"
    by (auto simp: exposeFunction_def Let_def split: if_splits)
  then have look: "lookupBinding pageBindings' contextBindings (JStr nm) = Some b"
    by (simp add: lookupBinding_def)
  have d: "dispatch fault pageBindings' contextBindings [''name'' \<mapsto> JStr nm, ''seq'' \<mapsto> s, ''args'' \<mapsto> JArr as]
           = (case f as of
                Inr v \<Rightarrow> DeliverResult (JStr nm) s v
              | Inl (ErrorObject message stack) \<Rightarrow> DeliverError (JStr nm) s message stack
              | Inl (ThrownValue v) \<Rightarrow> DeliverErrorValue (JStr nm) s v)"
    using dispatch_registered[OF look] b by simp
  show ?thesis
    unfolding d using deliver_settles by blast
qed

theorem binding_round_trip_witness:
  "dispatch (\<lambda>_. ([], None)) (snd (exposeFunction Map.empty Map.empty ''sum'' example_sum)) Map.empty
      [''name'' \<mapsto> JStr ''sum'', ''seq'' \<mapsto> JNum 1, ''args'' \<mapsto> JArr [JNum 2, JNum 3]]
     = DeliverResult (JStr ''sum'') (JNum 1) (JNum 5)
   \<and> deliver [''sum'' \<mapsto> \<lparr>lastSeq = 1, callbacks = [1], promises = [1 \<mapsto> Pending]\<rparr>]
        (dispatch (\<lambda>_. ([], None)) (snd (exposeFunction Map.empty Map.empty ''sum'' example_sum)) Map.empty
           [''name'' \<mapsto> JStr ''sum'', ''seq'' \<mapsto> JNum 1, ''args'' \<mapsto> JArr [JNum 2, JNum 3]])
     = Evaluated [''sum'' \<mapsto> \<lparr>lastSeq = 1, callbacks = [], promises = [1 \<mapsto> Fulfilled (JNum 5)]\<rparr>]
   \<and> dispatch (\<lambda>_. ([], None)) (snd (exposeFunction Map.empty Map.empty ''fail'' example_throw)) Map.empty
      [''name'' \<mapsto> JStr ''fail'', ''seq'' \<mapsto> JNum 1, ''args'' \<mapsto> JArr []]
     = DeliverError (JStr ''fail'') (JNum 1) ''boom'' (Some ''Error: boom at host'')"
proof -
  have r1: "exposeFunction Map.empty Map.empty ''sum'' example_sum
      = (Inr \<lparr>name = ''sum'', playwrightFunction = example_sum\<rparr>,
         snd (exposeFunction Map.empty Map.empty ''sum'' example_sum))"
    by (simp add: exposeFunction_def Let_def)
  have r2: "exposeFunction Map.empty Map.empty ''fail'' example_throw
      = (Inr \<lparr>name = ''fail'', playwrightFunction = example_throw\<rparr>,
         snd (exposeFunction Map.empty Map.empty ''fail'' example_throw))"
    by (simp add: exposeFunction_def Let_def)
  note t1 = binding_round_trip[OF r1, of "\<lambda>_. ([], None)" "JNum 1" "[JNum 2, JNum 3]"]
  note t2 = binding_round_trip[OF r2, of "\<lambda>_. ([], None)" "JNum 1" "[]"]
  have d1: "dispatch (\<lambda>_. ([], None)) (snd (exposeFunction Map.empty Map.empty ''sum'' example_sum)) Map.empty
      [''name'' \<mapsto> JStr ''sum'', ''seq'' \<mapsto> JNum 1, ''args'' \<mapsto> JArr [JNum 2, JNum 3]]
     = DeliverResult (JStr ''sum'') (JNum 1) (JNum 5)"
    using t1 by (simp add: example_sum_def)
  have d2: "dispatch (\<lambda>_. ([], None)) (snd (exposeFunction Map.empty Map.empty ''fail'' example_throw)) Map.empty
      [''name'' \<mapsto> JStr ''fail'', ''seq'' \<mapsto> JNum 1, ''args'' \<mapsto> JArr []]
     = DeliverError (JStr ''fail'') (JNum 1) ''boom'' (Some ''Error: boom at host'')"
    using t2 by (simp add: example_throw_def)
  have d3: "deliver [''sum'' \<mapsto> \<lparr>lastSeq = 1, callbacks = [1], promises = [1 \<mapsto> Pending]\<rparr>]
        (DeliverResult (JStr ''sum'') (JNum 1) (JNum 5))
     = Evaluated [''sum'' \<mapsto> \<lparr>lastSeq = 1, callbacks = [], promises = [1 \<mapsto> Fulfilled (JNum 5)]\<rparr>]"
    by (simp add: settle_def)
  show ?thesis using d1 d2 d3 by simp
qed

text \<open>
  The claim as stated names the key \<^verbatim>\<open>sequence\<close>. \<^verbatim>\<open>dispatch\<close> reads \<^verbatim>\<open>seq\<close>, which
  that payload does not have: the result 5 is delivered for the sequence \<^verbatim>\<open>undefined\<close>,
  and in the page \<^verbatim>\<open>callbacks.get(undefined)\<close> finds no callback, so the delivery throws
  and the promise of call 1 stays pending.
\<close>

theorem binding_payload_sequence_key_counterexample:
  "dispatch (\<lambda>_. ([], None)) (snd (exposeFunction Map.empty Map.empty ''sum'' example_sum)) Map.empty
      [''name'' \<mapsto> JStr ''sum'', ''sequence'' \<mapsto> JNum 1, ''args'' \<mapsto> JArr [JNum 2, JNum 3]]
     = DeliverResult (JStr ''sum'') JUndefined (JNum 5)
   \<and> deliver [''sum'' \<mapsto> \<lparr>lastSeq = 1, callbacks = [1], promises = [1 \<mapsto> Pending]\<rparr>]
        (DeliverResult (JStr ''sum'') JUndefined (JNum 5)) = Threw"
  by (simp add: dispatch_def getProp_def lookupBinding_def spread_def exposeFunction_def
      example_sum_def settle_def Let_def)

lemma already_registered_messages:
  "stringIncludes (''Function '' @ quoted nm @ '' has been already registered'') ''already registered''"
  "stringIncludes (''Function '' @ quoted nm @ '' has been already registered in the browser context'')
     ''already registered''"
  "stringIncludes (''Function '' @ quoted nm @ '' has been already registered in one of the pages'')
     ''already registered''"
proof -
  show "stringIncludes (''Function '' @ quoted nm @ '' has been already registered'') ''already registered''"
    using stringIncludes_suffix[of "''Function '' @ quoted nm @ '' has been ''" "''already registered''"]
    by simp
  show "stringIncludes (''Function '' @ quoted nm @ '' has been already registered in the browser context'')
     ''already registered''"
    using stringIncludes_middle[of "''Function '' @ quoted nm @ '' has been ''" "''already registered''"
        "'' in the browser context''"]
    by simp
  show "stringIncludes (''Function '' @ quoted nm @ '' has been already registered in one of the pages'')
     ''already registered''"
    using stringIncludes_middle[of "''Function '' @ quoted nm @ '' has been ''" "''already registered''"
        "'' in one of the pages''"]
    by simp
qed

text \<open>
  Claim C4. \<^verbatim>\<open>Page.exposeFunction\<close> under a name that the page's own binding map or the
  map of its owning context already holds fails with a message that says
  \<^verbatim>\<open>already registered\<close> and leaves the page's map as it was, so the name still resolves to the
  binding registered first; under a name in neither map it inserts the new binding. The
  same holds for \<^verbatim>\<open>CRBrowserContext.exposeFunction\<close>, which checks the maps of the context's
  pages and the context's own map and inserts into the latter.
\<close>

theorem binding_registration_atomic:
  "(nm \<in> dom pageBindings \<union> dom contextBindings \<longrightarrow>
       (\<exists>message. fst (exposeFunction pageBindings contextBindings nm f) = Inl message
          \<and> stringIncludes message ''already registered'')
     \<and> snd (exposeFunction pageBindings contextBindings nm f) = pageBindings
     \<and> lookupBinding (snd (exposeFunction pageBindings contextBindings nm f)) contextBindings (JStr nm)
         = lookupBinding pageBindings contextBindings (JStr nm)
     \<and> lookupBinding pageBindings contextBindings (JStr nm) \<noteq> None)
   \<and> (nm \<notin> dom pageBindings \<union> dom contextBindings \<longrightarrow>
       exposeFunction pageBindings contextBindings nm f
         = (Inr \<lparr>name = nm, playwrightFunction = f\<rparr>,
            pageBindings(nm \<mapsto> \<lparr>name = nm, playwrightFunction = f\<rparr>)))
   \<and> (list_ex (\<lambda>bs. nm \<in> dom bs) pages \<or> nm \<in> dom contextBindings \<longrightarrow>
       (\<exists>message. fst (contextExposeFunction pages contextBindings nm f) = Inl message
          \<and> stringIncludes message ''already registered'')
     \<and> snd (contextExposeFunction pages contextBindings nm f) = contextBindings)
   \<and> (\<not> list_ex (\<lambda>bs. nm \<in> dom bs) pages \<and> nm \<notin> dom contextBindings \<longrightarrow>
       contextExposeFunction pages contextBindings nm f
         = (Inr \<lparr>name = nm, playwrightFunction = f\<rparr>,
            contextBindings(nm \<mapsto> \<lparr>name = nm, playwrightFunction = f\<rparr>)))"
proof (intro conjI impI)
  assume "nm \<in> dom pageBindings \<union> dom contextBindings"
  then show "\<exists>message. fst (exposeFunction pageBindings contextBindings nm f) = Inl message
          \<and> stringIncludes message ''already registered''"
    using already_registered_messages(1,2)[of nm] by (auto simp: exposeFunction_def)
next
  assume "nm \<in> dom pageBindings \<union> dom contextBindings"
  then show "snd (exposeFunction pageBindings contextBindings nm f) = pageBindings"
    by (auto simp: exposeFunction_def)
  then show "lookupBinding (snd (exposeFunction pageBindings contextBindings nm f)) contextBindings (JStr nm)
         = lookupBinding pageBindings contextBindings (JStr nm)"
    by simp
next
  assume "nm \<in> dom pageBindings \<union> dom contextBindings"
  then show "lookupBinding pageBindings contextBindings (JStr nm) \<noteq> None"
    by (auto simp: lookupBinding_def split: option.splits)
next
  assume "nm \<notin> dom pageBindings \<union> dom contextBindings"
  then show "exposeFunction pageBindings contextBindings nm f
         = (Inr \<lparr>name = nm, playwrightFunction = f\<rparr>,
            pageBindings(nm \<mapsto> \<lparr>name = nm, playwrightFunction = f\<rparr>))"
    by (simp add: exposeFunction_def Let_def)
next
  assume "list_ex (\<lambda>bs. nm \<in> dom bs) pages \<or> nm \<in> dom contextBindings"
  then show "\<exists>message. fst (contextExposeFunction pages contextBindings nm f) = Inl message
          \<and> stringIncludes message ''already registered''"
    using already_registered_messages(1,3)[of nm] by (auto simp: contextExposeFunction_def)
next
  assume "list_ex (\<lambda>bs. nm \<in> dom bs) pages \<or> nm \<in> dom contextBindings"
  then show "snd (contextExposeFunction pages contextBindings nm f) = contextBindings"
    by (auto simp: contextExposeFunction_def)
next
  assume "\<not> list_ex (\<lambda>bs. nm \<in> dom bs) pages \<and> nm \<notin> dom contextBindings"
  then show "contextExposeFunction pages contextBindings nm f
         = (Inr \<lparr>name = nm, playwrightFunction = f\<rparr>,
            contextBindings(nm \<mapsto> \<lparr>name = nm, playwrightFunction = f\<rparr>))"
    by (simp add: contextExposeFunction_def Let_def)
qed

theorem binding_registration_atomic_witness:
  "fst (exposeFunction [''sum'' \<mapsto> \<lparr>name = ''sum'', playwrightFunction = example_sum\<rparr>] Map.empty
          ''sum'' example_throw)
     = Inl (''Function '' @ quoted ''sum'' @ '' has been already registered'')
   \<and> lookupBinding (snd (exposeFunction [''sum'' \<mapsto> \<lparr>name = ''sum'', playwrightFunction = example_sum\<rparr>]
          Map.empty ''sum'' example_throw)) Map.empty (JStr ''sum'')
     = Some \<lparr>name = ''sum'', playwrightFunction = example_sum\<rparr>
   \<and> fst (exposeFunction Map.empty Map.empty ''sum'' example_sum)
     = Inr \<lparr>name = ''sum'', playwrightFunction = example_sum\<rparr>
   \<and> snd (contextExposeFunction [[''sum'' \<mapsto> \<lparr>name = ''sum'', playwrightFunction = example_sum\<rparr>]]
          Map.empty ''sum'' example_throw) ''sum'' = None"
  using binding_registration_atomic[of "''sum''"
      "[''sum'' \<mapsto> \<lparr>name = ''sum'', playwrightFunction = example_sum\<rparr>]" Map.empty example_throw
      "[[''sum'' \<mapsto> \<lparr>name = ''sum'', playwrightFunction = example_sum\<rparr>]]"]
    binding_registration_atomic[of "''sum''" Map.empty Map.empty example_sum "[]"]
  by (simp add: exposeFunction_def contextExposeFunction_def lookupBinding_def Let_def)

section \<open>Properties of the target registries\<close>

text \<open>
  Claim C5, as amended. The callback that signals the first page, emits the context's
  page notification and emits the opener's popup notification is chained to the target's
  deferred page-or-error result and does not look at what the result is: nothing is
  emitted while the result is pending, and once it completes, with a page or with an
  error, a page target gets the first-page signal and the context's notification, both
  carrying the outcome. The popup notification follows exactly when the target has an
  opener whose own deferred result completed with a page that is not closed. Chromium
  targets of another type get no page and no popup notification. The WebKit browser
  does the same for every page proxy.
\<close>

theorem notifications_follow_completion:
  "attachedNotifications ttype ctx isClosed opener Unsettled = []
   \<and> pageProxyNotifications ctx isClosed opener Unsettled = []
   \<and> attachedNotifications ''page'' ctx isClosed opener (Completed outcome)
       = FirstPageCallback # ContextEmit ctx BrowserContextPage outcome # popupNotification isClosed opener outcome
   \<and> pageProxyNotifications ctx isClosed opener (Completed outcome)
       = FirstPageCallback # ContextEmit ctx BrowserContextPage outcome # popupNotification isClosed opener outcome
   \<and> (ttype \<noteq> ''page'' \<longrightarrow>
         attachedNotifications ttype ctx isClosed opener (Completed outcome)
           = (if ttype = ''background_page'' then [ContextEmit ctx BrowserContextBackgroundPage outcome] else []))
   \<and> (\<forall>openerPage. opener = Some (Completed (IsPage openerPage)) \<and> \<not> isClosed openerPage \<longrightarrow>
         popupNotification isClosed opener outcome = [PageEmit openerPage PagePopup outcome])
   \<and> ((\<forall>openerPage. opener = Some (Completed (IsPage openerPage)) \<longrightarrow> isClosed openerPage) \<longrightarrow>
         popupNotification isClosed opener outcome = ([] :: ('c, 'p) notification list))"
  by (auto simp: attachedNotifications_def pageProxyNotifications_def popupNotification_def
      split: option.splits deferred.splits page_or_error.splits)

theorem notifications_follow_completion_witness:
  "attachedNotifications ''page'' (0::nat) (\<lambda>p. False) (Some (Completed (IsPage (3::nat)))) (Completed (IsPage 7))
     = [FirstPageCallback, ContextEmit 0 BrowserContextPage (IsPage 7), PageEmit 3 PagePopup (IsPage 7)]
   \<and> attachedNotifications ''page'' (0::nat) (\<lambda>p. False) (Some (Completed (IsPage (3::nat)))) Unsettled = []"
  using notifications_follow_completion[of "''page''" "0::nat" "\<lambda>p. False" "Some (Completed (IsPage (3::nat)))"
      "IsPage 7"]
  by (simp add: attachedNotifications_def popupNotification_def)

text \<open>
  The claim as stated has a failed construction emit nothing. A page target whose deferred
  result completes with an error still gets the first-page signal and the context's page
  notification, in both backends; the notification carries the error.
\<close>

theorem notifications_on_failed_construction_counterexample:
  "attachedNotifications ''page'' (0::nat) (\<lambda>p. False) None (Completed (IsError ''Target closed'' :: nat page_or_error))
     = [FirstPageCallback, ContextEmit 0 BrowserContextPage (IsError ''Target closed'')]
   \<and> pageProxyNotifications (0::nat) (\<lambda>p. False) None (Completed (IsError ''Target closed'' :: nat page_or_error))
     = [FirstPageCallback, ContextEmit 0 BrowserContextPage (IsError ''Target closed'')]"
  by (simp add: attachedNotifications_def pageProxyNotifications_def popupNotification_def)

lemma targetDestroyed_unknown:
  "targets browser tid = None \<Longrightarrow> targetDestroyed browser tid = (browser, [])"
  by (simp add: targetDestroyed_def)

lemma onPageProxyDestroyed_unknown:
  "wkPages browser proxyId = None \<Longrightarrow> onPageProxyDestroyed browser proxyId = (browser, [])"
  by (simp add: onPageProxyDestroyed_def)

lemma onPageProxyDestroyed_known:
  "wkPages browser proxyId = Some wkPage \<Longrightarrow>
     onPageProxyDestroyed browser proxyId
       = (browser\<lparr>wkPages := (wkPages browser)(proxyId := None)\<rparr>,
          [DidClose proxyId True, Dispose proxyId, DeleteFromRegistry proxyId])"
  by (auto simp: onPageProxyDestroyed_def)

lemma targetDestroyed_known:
  "targets browser tid = Some target \<Longrightarrow>
     targetDestroyed browser tid
       = (browser\<lparr>targets := (targets browser)(tid := None)\<rparr>,
          [DeleteFromRegistry tid, DidClose tid False])"
  by (simp add: targetDestroyed_def Let_def)

text \<open>
  Claim C6 holds of the WebKit backend (\<open>onPageProxyDestroyed_known\<close>: the close is
  applied while the registry still holds the page, the removal comes last) and, in both
  backends, for an unknown id (\<open>targetDestroyed_unknown\<close>, \<open>onPageProxyDestroyed_unknown\<close>). The
  Chromium backend removes the target first: at the time \<^verbatim>\<open>_didClose\<close> runs the registry
  no longer holds it.
\<close>

theorem chromium_targetDestroyed_deletes_before_close:
  "snd (targetDestroyed
        \<lparr>defaultContext = 0::nat, contexts = Map.empty,
         targets = [''T1'' \<mapsto> \<lparr>target_info = \<lparr>targetId = ''T1'', targetType = ''page'', openerId = None,
                       browserContextId = None\<rparr>, target_context = 0, target_session = (None :: unit option),
                       hasInitialAboutBlank = False\<rparr>],
         popupOpeners = []\<rparr> ''T1'')
     = [DeleteFromRegistry ''T1'', DidClose ''T1'' False]"
  by (simp add: targetDestroyed_def Let_def)

lemma indexOf_range: "indexOf xs x = - 1 \<or> (0 \<le> indexOf xs x \<and> indexOf xs x < int (length xs))"
  by (induction xs) (auto simp: Let_def)

lemma indexOf_found: "indexOf xs x \<noteq> - 1 \<longleftrightarrow> x \<in> set xs"
proof (induction xs)
  case Nil
  then show ?case by simp
next
  case (Cons y ys)
  from indexOf_range[of ys x] have "indexOf ys x = - 1 \<or> indexOf ys x + 1 \<noteq> - 1" by auto
  with Cons show ?case by (auto simp: Let_def)
qed

lemma splice1_indexOf: "x \<in> set xs \<Longrightarrow> splice1 xs (indexOf xs x) = remove1 x xs"
proof (induction xs)
  case Nil
  then show ?case by simp
next
  case (Cons y ys)
  show ?case
  proof (cases "y = x")
    case True
    then show ?thesis by (simp add: splice1_def)
  next
    case False
    with Cons.prems have mem: "x \<in> set ys" by simp
    then have nz: "indexOf ys x \<noteq> - 1" by (simp add: indexOf_found)
    with indexOf_range[of ys x] have ge: "0 \<le> indexOf ys x" by auto
    then have "nat (indexOf ys x + 1) = Suc (nat (indexOf ys x))" by simp
    with False nz Cons.IH[OF mem] show ?thesis
      by (simp add: splice1_def Let_def)
  qed
qed

lemma createTarget_opener:
  assumes "isPageType (targetType info)" "openerId info = Some T" "T \<noteq> []"
    "targetId info \<notin> dom (targets browser)"
  shows "\<exists>ctx target. createTarget isPageType browser info session
           = (Inr (ctx, target),
              browser\<lparr>popupOpeners := remove1 T (popupOpeners browser),
                       targets := (targets browser)(targetId info \<mapsto> target)\<rparr>)
         \<and> hasInitialAboutBlank target = (T \<in> set (popupOpeners browser))"
proof (cases "T \<in> set (popupOpeners browser)")
  case True
  then have "indexOf (popupOpeners browser) T \<noteq> - 1" by (simp add: indexOf_found)
  with True assms show ?thesis
    by (simp add: createTarget_def truthy_def assert_def Let_def splice1_indexOf)
next
  case False
  then have "indexOf (popupOpeners browser) T = - 1" using indexOf_found[of "popupOpeners browser" T] by simp
  with False assms show ?thesis
    by (simp add: createTarget_def truthy_def assert_def Let_def remove1_idem)
qed

lemma onPageProxyCreated_opener:
  assumes "proxy_openerId info = Some T" "T \<noteq> []"
    "attachToDefaultContext browser \<or>
       (truthy (proxy_browserContextId info) \<and> the (proxy_browserContextId info) \<in> dom (wk_contexts browser))"
  shows "\<exists>wkPage. onPageProxyCreated browser info
           = (Some wkPage,
              browser\<lparr>wk_popupOpeners := remove1 T (wk_popupOpeners browser),
                       wkPages := (wkPages browser)(pageProxyId info \<mapsto> wkPage)\<rparr>)
         \<and> wkPage_hasInitialAboutBlank wkPage = (T \<in> set (wk_popupOpeners browser))"
proof (cases "T \<in> set (wk_popupOpeners browser)")
  case True
  then have "indexOf (wk_popupOpeners browser) T \<noteq> - 1" by (simp add: indexOf_found)
  with True assms show ?thesis
    by (auto simp: onPageProxyCreated_def truthy_def Let_def splice1_indexOf split: option.splits bool.splits)
next
  case False
  then have "indexOf (wk_popupOpeners browser) T = - 1" using indexOf_found[of "wk_popupOpeners browser" T] by simp
  with False assms show ?thesis
    by (auto simp: onPageProxyCreated_def truthy_def Let_def remove1_idem split: option.splits bool.splits)
qed

lemma createTarget_flag:
  assumes "isPageType (targetType info)" "openerId info = Some T" "T \<noteq> []"
    "targetId info \<notin> dom (targets browser)"
  shows "implicitBlank (fst (createTarget isPageType browser info session)) = Some (T \<in> set (popupOpeners browser))"
    and "popupOpeners (snd (createTarget isPageType browser info session)) = remove1 T (popupOpeners browser)"
    and "dom (targets (snd (createTarget isPageType browser info session))) = insert (targetId info) (dom (targets browser))"
  using createTarget_opener[of isPageType info T browser session] assms by (auto simp: implicitBlank_def)

lemma onPageProxyCreated_flag:
  assumes "proxy_openerId info = Some T" "T \<noteq> []"
    "attachToDefaultContext browser \<or>
       (truthy (proxy_browserContextId info) \<and> the (proxy_browserContextId info) \<in> dom (wk_contexts browser))"
  shows "map_option wkPage_hasInitialAboutBlank (fst (onPageProxyCreated browser info))
           = Some (T \<in> set (wk_popupOpeners browser))"
    and "wk_popupOpeners (snd (onPageProxyCreated browser info)) = remove1 T (wk_popupOpeners browser)"
    and "attachToDefaultContext (snd (onPageProxyCreated browser info)) = attachToDefaultContext browser"
    and "wk_contexts (snd (onPageProxyCreated browser info)) = wk_contexts browser"
  using onPageProxyCreated_opener[OF assms] by auto

lemma onWindowOpen_pushes:
  "\<not> (''noopener'' \<in> set (windowFeatures payload) \<and> startsWith (windowOpen_url payload) ''about:blank'')
     \<Longrightarrow> onWindowOpen browser T payload = browser\<lparr>popupOpeners := popupOpeners browser @ [T]\<rparr>"
  by (auto simp: onWindowOpen_def)

lemma chromium_consume_once:
  assumes T: "T \<noteq> []" "T \<notin> set (popupOpeners browser)"
    and push: "\<not> (''noopener'' \<in> set (windowFeatures payload) \<and> startsWith (windowOpen_url payload) ''about:blank'')"
    and i1: "isPageType (targetType info1)" "openerId info1 = Some T" "targetId info1 \<notin> dom (targets browser)"
    and i2: "isPageType (targetType info2)" "openerId info2 = Some T" "targetId info2 \<notin> dom (targets browser)"
      "targetId info2 \<noteq> targetId info1"
  shows "implicitBlank (fst (createTarget isPageType (onWindowOpen browser T payload) info1 s1)) = Some True
       \<and> implicitBlank (fst (createTarget isPageType
             (snd (createTarget isPageType (onWindowOpen browser T payload) info1 s1)) info2 s2)) = Some False"
proof -
  let ?b1 = "onWindowOpen browser T payload"
  let ?b2 = "snd (createTarget isPageType ?b1 info1 s1)"
  have b1: "?b1 = browser\<lparr>popupOpeners := popupOpeners browser @ [T]\<rparr>"
    using push by (rule onWindowOpen_pushes)
  have fresh1: "targetId info1 \<notin> dom (targets ?b1)" using i1(3) b1 by simp
  note c1 = createTarget_flag[of isPageType info1 T ?b1 s1, OF i1(1) i1(2) T(1) fresh1]
  have q2: "popupOpeners ?b2 = popupOpeners browser"
    using c1(2) b1 T(2) by (simp add: remove1_append remove1_idem)
  have fresh2: "targetId info2 \<notin> dom (targets ?b2)"
    using c1(3) b1 i2(3,4) by simp
  note c2 = createTarget_flag[of isPageType info2 T ?b2 s2, OF i2(1) i2(2) T(1) fresh2]
  show ?thesis using c1(1) c2(1) b1 q2 T(2) by simp
qed

lemma surfaces_iff:
  "surfaces browser info \<longleftrightarrow> (attachToDefaultContext browser \<or>
       (truthy (proxy_browserContextId info) \<and> the (proxy_browserContextId info) \<in> dom (wk_contexts browser)))"
  by (auto simp: surfaces_def unknownContext_def truthy_def split: option.splits)

lemma webkit_consume_once:
  assumes T: "T \<noteq> []" "T \<notin> set (wk_popupOpeners browser)"
    and i1: "proxy_openerId info1 = Some T" "surfaces browser info1"
    and i2: "proxy_openerId info2 = Some T" "surfaces browser info2"
  shows "map_option wkPage_hasInitialAboutBlank
           (fst (onPageProxyCreated (wk_onWindowOpen browser T) info1)) = Some True
       \<and> map_option wkPage_hasInitialAboutBlank
           (fst (onPageProxyCreated (snd (onPageProxyCreated (wk_onWindowOpen browser T) info1)) info2)) = Some False"
proof -
  let ?b1 = "wk_onWindowOpen browser T"
  let ?b2 = "snd (onPageProxyCreated ?b1 info1)"
  have a1: "attachToDefaultContext ?b1 \<or>
       (truthy (proxy_browserContextId info1) \<and> the (proxy_browserContextId info1) \<in> dom (wk_contexts ?b1))"
    using i1(2) by (simp add: surfaces_iff wk_onWindowOpen_def)
  note c1 = onPageProxyCreated_flag[OF i1(1) T(1) a1]
  have q2: "wk_popupOpeners ?b2 = wk_popupOpeners browser"
    using c1(2) T(2) by (simp add: wk_onWindowOpen_def remove1_append remove1_idem)
  have a2: "attachToDefaultContext ?b2 \<or>
       (truthy (proxy_browserContextId info2) \<and> the (proxy_browserContextId info2) \<in> dom (wk_contexts ?b2))"
    using c1(3,4) i2(2) by (simp add: surfaces_iff wk_onWindowOpen_def)
  note c2 = onPageProxyCreated_flag[OF i2(1) T(1) a2]
  show ?thesis using c1(1) c2(1) q2 T(2) by (simp add: wk_onWindowOpen_def)
qed

lemma onWindowOpen_guarded:
  "''noopener'' \<in> set (windowFeatures payload) \<and> startsWith (windowOpen_url payload) ''about:blank''
     \<Longrightarrow> onWindowOpen browser T payload = browser"
  by (simp add: onWindowOpen_def)

lemma createTarget_no_consume:
  assumes "\<not> isPageType (targetType info) \<or> \<not> truthy (openerId info)"
    "targetId info \<notin> dom (targets browser)"
  shows "implicitBlank (fst (createTarget isPageType browser info session)) = Some False"
    and "popupOpeners (snd (createTarget isPageType browser info session)) = popupOpeners browser"
  using assms by (auto simp: createTarget_def assert_def implicitBlank_def Let_def)

lemma onPageProxyCreated_no_consume:
  assumes "surfaces browser info" "\<not> truthy (proxy_openerId info)"
  shows "map_option wkPage_hasInitialAboutBlank (fst (onPageProxyCreated browser info)) = Some False"
    and "wk_popupOpeners (snd (onPageProxyCreated browser info)) = wk_popupOpeners browser"
  using assms
  by (auto simp: onPageProxyCreated_def surfaces_iff Let_def split: option.splits bool.splits)

lemma onPageProxyCreated_ignored:
  assumes "\<not> surfaces browser info"
  shows "onPageProxyCreated browser info = (None, browser)"
  using assms
  by (auto simp: onPageProxyCreated_def surfaces_def unknownContext_def truthy_def Let_def
      split: option.splits bool.splits)

text \<open>
  Claim C7, as amended. Every window-open signal of the WebKit backend appends the opener id
  to the queue; the Chromium backend appends it unless the signal's window features include
  \<^verbatim>\<open>noopener\<close> and its URL starts with \<^verbatim>\<open>about:blank\<close>, and then leaves the browser as
  it was. A registration that carries a non-empty opener id \<open>T\<close> (in Chromium of a
  page-type target, in WebKit of a page proxy that is not ignored) sets the
  implicit-initial-about-blank flag to whether the queue holds \<open>T\<close> and removes the first
  entry equal to \<open>T\<close>, and no other. A registration of a Chromium target that is not of a
  page type or has no opener id, and one of a WebKit page proxy without opener id, sets
  the flag false and leaves the queue as it was; a WebKit page proxy that is ignored leaves
  the whole browser as it was. So when one signal for a \<open>T\<close> that was not queued has been
  recorded, the next registration with opener \<open>T\<close> gets the flag true and the one after
  it, with no signal in between, gets it false; and after a Chromium signal that was not
  recorded, the next registration with opener \<open>T\<close> gets the flag false.
\<close>

theorem popup_opener_consume_once:
  assumes "T \<noteq> []"
  shows "(\<not> (''noopener'' \<in> set (windowFeatures payload) \<and> startsWith (windowOpen_url payload) ''about:blank'') \<longrightarrow>
            popupOpeners (onWindowOpen browser T payload) = popupOpeners browser @ [T])
       \<and> (''noopener'' \<in> set (windowFeatures payload) \<and> startsWith (windowOpen_url payload) ''about:blank'' \<longrightarrow>
            onWindowOpen browser T payload = browser)
       \<and> wk_popupOpeners (wk_onWindowOpen wk T) = wk_popupOpeners wk @ [T]
       \<and> (isPageType (targetType info) \<and> openerId info = Some T \<and> targetId info \<notin> dom (targets browser) \<longrightarrow>
            implicitBlank (fst (createTarget isPageType browser info session))
              = Some (T \<in> set (popupOpeners browser))
          \<and> popupOpeners (snd (createTarget isPageType browser info session))
              = remove1 T (popupOpeners browser))
       \<and> ((\<not> isPageType (targetType other) \<or> \<not> truthy (openerId other)) \<and>
          targetId other \<notin> dom (targets browser) \<longrightarrow>
            implicitBlank (fst (createTarget isPageType browser other session)) = Some False
          \<and> popupOpeners (snd (createTarget isPageType browser other session)) = popupOpeners browser)
       \<and> (proxy_openerId proxy = Some T \<and> surfaces wk proxy \<longrightarrow>
            map_option wkPage_hasInitialAboutBlank (fst (onPageProxyCreated wk proxy))
              = Some (T \<in> set (wk_popupOpeners wk))
          \<and> wk_popupOpeners (snd (onPageProxyCreated wk proxy)) = remove1 T (wk_popupOpeners wk))
       \<and> (surfaces wk quiet \<and> \<not> truthy (proxy_openerId quiet) \<longrightarrow>
            map_option wkPage_hasInitialAboutBlank (fst (onPageProxyCreated wk quiet)) = Some False
          \<and> wk_popupOpeners (snd (onPageProxyCreated wk quiet)) = wk_popupOpeners wk)
       \<and> (\<not> surfaces wk quiet \<longrightarrow> onPageProxyCreated wk quiet = (None, wk))
       \<and> (T \<notin> set (popupOpeners browser) \<and>
          \<not> (''noopener'' \<in> set (windowFeatures payload) \<and> startsWith (windowOpen_url payload) ''about:blank'') \<and>
          isPageType (targetType info) \<and> openerId info = Some T \<and> targetId info \<notin> dom (targets browser) \<and>
          isPageType (targetType info') \<and> openerId info' = Some T \<and> targetId info' \<notin> dom (targets browser) \<and>
          targetId info' \<noteq> targetId info \<longrightarrow>
            implicitBlank (fst (createTarget isPageType (onWindowOpen browser T payload) info session)) = Some True
          \<and> implicitBlank (fst (createTarget isPageType
                (snd (createTarget isPageType (onWindowOpen browser T payload) info session)) info' session'))
              = Some False)
       \<and> (T \<notin> set (popupOpeners browser) \<and>
          ''noopener'' \<in> set (windowFeatures payload) \<and> startsWith (windowOpen_url payload) ''about:blank'' \<and>
          isPageType (targetType info) \<and> openerId info = Some T \<and> targetId info \<notin> dom (targets browser) \<longrightarrow>
            implicitBlank (fst (createTarget isPageType (onWindowOpen browser T payload) info session)) = Some False)
       \<and> (T \<notin> set (wk_popupOpeners wk) \<and> proxy_openerId proxy = Some T \<and> surfaces wk proxy \<and>
          proxy_openerId proxy' = Some T \<and> surfaces wk proxy' \<longrightarrow>
            map_option wkPage_hasInitialAboutBlank
              (fst (onPageProxyCreated (wk_onWindowOpen wk T) proxy)) = Some True
          \<and> map_option wkPage_hasInitialAboutBlank
              (fst (onPageProxyCreated (snd (onPageProxyCreated (wk_onWindowOpen wk T) proxy)) proxy'))
              = Some False)"
proof (intro conjI impI)
  assume "\<not> (''noopener'' \<in> set (windowFeatures payload) \<and> startsWith (windowOpen_url payload) ''about:blank'')"
  then show "popupOpeners (onWindowOpen browser T payload) = popupOpeners browser @ [T]"
    by (simp add: onWindowOpen_pushes)
next
  assume "''noopener'' \<in> set (windowFeatures payload) \<and> startsWith (windowOpen_url payload) ''about:blank''"
  then show "onWindowOpen browser T payload = browser"
    by (rule onWindowOpen_guarded)
next
  show "wk_popupOpeners (wk_onWindowOpen wk T) = wk_popupOpeners wk @ [T]"
    by (simp add: wk_onWindowOpen_def)
next
  assume a: "isPageType (targetType info) \<and> openerId info = Some T \<and> targetId info \<notin> dom (targets browser)"
  then show "implicitBlank (fst (createTarget isPageType browser info session))
              = Some (T \<in> set (popupOpeners browser))"
    using createTarget_flag(1)[of isPageType info T browser session] assms by simp
  from a show "popupOpeners (snd (createTarget isPageType browser info session))
              = remove1 T (popupOpeners browser)"
    using createTarget_flag(2)[of isPageType info T browser session] assms by simp
next
  assume a: "(\<not> isPageType (targetType other) \<or> \<not> truthy (openerId other)) \<and>
          targetId other \<notin> dom (targets browser)"
  then show "implicitBlank (fst (createTarget isPageType browser other session)) = Some False"
    using createTarget_no_consume(1)[of isPageType other browser session] by blast
  from a show "popupOpeners (snd (createTarget isPageType browser other session)) = popupOpeners browser"
    using createTarget_no_consume(2)[of isPageType other browser session] by blast
next
  assume a: "proxy_openerId proxy = Some T \<and> surfaces wk proxy"
  then show "map_option wkPage_hasInitialAboutBlank (fst (onPageProxyCreated wk proxy))
              = Some (T \<in> set (wk_popupOpeners wk))"
    using onPageProxyCreated_flag(1)[of proxy T wk] assms by (simp add: surfaces_iff)
  from a show "wk_popupOpeners (snd (onPageProxyCreated wk proxy)) = remove1 T (wk_popupOpeners wk)"
    using onPageProxyCreated_flag(2)[of proxy T wk] assms by (simp add: surfaces_iff)
next
  assume a: "surfaces wk quiet \<and> \<not> truthy (proxy_openerId quiet)"
  then show "map_option wkPage_hasInitialAboutBlank (fst (onPageProxyCreated wk quiet)) = Some False"
    using onPageProxyCreated_no_consume(1)[of wk quiet] by blast
  from a show "wk_popupOpeners (snd (onPageProxyCreated wk quiet)) = wk_popupOpeners wk"
    using onPageProxyCreated_no_consume(2)[of wk quiet] by blast
next
  assume "\<not> surfaces wk quiet"
  then show "onPageProxyCreated wk quiet = (None, wk)"
    by (rule onPageProxyCreated_ignored)
next
  assume a: "T \<notin> set (popupOpeners browser) \<and>
          \<not> (''noopener'' \<in> set (windowFeatures payload) \<and> startsWith (windowOpen_url payload) ''about:blank'') \<and>
          isPageType (targetType info) \<and> openerId info = Some T \<and> targetId info \<notin> dom (targets browser) \<and>
          isPageType (targetType info') \<and> openerId info' = Some T \<and> targetId info' \<notin> dom (targets browser) \<and>
          targetId info' \<noteq> targetId info"
  note sc = chromium_consume_once[of T browser payload isPageType info info' session session']
  from a assms sc
  show "implicitBlank (fst (createTarget isPageType (onWindowOpen browser T payload) info session)) = Some True"
    by blast
  from a assms sc
  show "implicitBlank (fst (createTarget isPageType
                (snd (createTarget isPageType (onWindowOpen browser T payload) info session)) info' session'))
              = Some False"
    by blast
next
  assume a: "T \<notin> set (popupOpeners browser) \<and>
          ''noopener'' \<in> set (windowFeatures payload) \<and> startsWith (windowOpen_url payload) ''about:blank'' \<and>
          isPageType (targetType info) \<and> openerId info = Some T \<and> targetId info \<notin> dom (targets browser)"
  then have same: "onWindowOpen browser T payload = browser"
    by (simp add: onWindowOpen_guarded)
  from a show "implicitBlank (fst (createTarget isPageType (onWindowOpen browser T payload) info session)) = Some False"
    unfolding same
    using createTarget_flag(1)[of isPageType info T browser session] assms by simp
next
  assume a: "T \<notin> set (wk_popupOpeners wk) \<and> proxy_openerId proxy = Some T \<and> surfaces wk proxy \<and>
          proxy_openerId proxy' = Some T \<and> surfaces wk proxy'"
  note sc = webkit_consume_once[of T wk proxy proxy']
  from a assms sc
  show "map_option wkPage_hasInitialAboutBlank
              (fst (onPageProxyCreated (wk_onWindowOpen wk T) proxy)) = Some True"
    by blast
  from a assms sc
  show "map_option wkPage_hasInitialAboutBlank
              (fst (onPageProxyCreated (snd (onPageProxyCreated (wk_onWindowOpen wk T) proxy)) proxy'))
              = Some False"
    by blast
qed

theorem popup_opener_consume_once_witness:
  "implicitBlank (fst (createTarget (\<lambda>t. t = ''page'' \<or> t = ''background_page'')
       (onWindowOpen \<lparr>defaultContext = 0::nat, contexts = Map.empty, targets = Map.empty, popupOpeners = []\<rparr>
          ''T1'' \<lparr>windowOpen_url = ''https://example.com/'', windowFeatures = []\<rparr>)
       \<lparr>targetId = ''T2'', targetType = ''page'', openerId = Some ''T1'', browserContextId = None\<rparr>
       (None :: unit option))) = Some True
   \<and> implicitBlank (fst (createTarget (\<lambda>t. t = ''page'' \<or> t = ''background_page'')
       (snd (createTarget (\<lambda>t. t = ''page'' \<or> t = ''background_page'')
          (onWindowOpen \<lparr>defaultContext = 0::nat, contexts = Map.empty, targets = Map.empty, popupOpeners = []\<rparr>
             ''T1'' \<lparr>windowOpen_url = ''https://example.com/'', windowFeatures = []\<rparr>)
          \<lparr>targetId = ''T2'', targetType = ''page'', openerId = Some ''T1'', browserContextId = None\<rparr>
          (None :: unit option)))
       \<lparr>targetId = ''T3'', targetType = ''page'', openerId = Some ''T1'', browserContextId = None\<rparr>
       None)) = Some False
   \<and> map_option wkPage_hasInitialAboutBlank (fst (onPageProxyCreated
       (wk_onWindowOpen \<lparr>attachToDefaultContext = True, wk_defaultContext = 0::nat, wk_contexts = Map.empty,
          wkPages = Map.empty, wk_popupOpeners = []\<rparr> ''T1'')
       \<lparr>pageProxyId = ''T2'', proxy_browserContextId = None, proxy_openerId = Some ''T1''\<rparr>)) = Some True
   \<and> popupOpeners (onWindowOpen
       \<lparr>defaultContext = 0::nat, contexts = Map.empty, targets = (Map.empty :: string \<rightharpoonup> (nat, unit) CRTarget),
        popupOpeners = [''T0'']\<rparr>
       ''T1'' \<lparr>windowOpen_url = ''about:blank#x'', windowFeatures = [''noopener'']\<rparr>) = [''T0'']
   \<and> implicitBlank (fst (createTarget (\<lambda>t. t = ''page'' \<or> t = ''background_page'')
       \<lparr>defaultContext = 0::nat, contexts = Map.empty, targets = Map.empty, popupOpeners = [''T1'']\<rparr>
       \<lparr>targetId = ''S1'', targetType = ''service_worker'', openerId = Some ''T1'', browserContextId = None\<rparr>
       (None :: unit option))) = Some False"
  using popup_opener_consume_once[where T = "''T1''"
      and payload = "\<lparr>windowOpen_url = ''https://example.com/'', windowFeatures = []\<rparr>"
      and browser = "\<lparr>defaultContext = 0::nat, contexts = Map.empty, targets = Map.empty, popupOpeners = []\<rparr>"
      and wk = "\<lparr>attachToDefaultContext = True, wk_defaultContext = 0::nat, wk_contexts = Map.empty,
          wkPages = Map.empty, wk_popupOpeners = []\<rparr>"
      and isPageType = "\<lambda>t. t = ''page'' \<or> t = ''background_page''"
      and info = "\<lparr>targetId = ''T2'', targetType = ''page'', openerId = Some ''T1'', browserContextId = None\<rparr>"
      and info' = "\<lparr>targetId = ''T3'', targetType = ''page'', openerId = Some ''T1'', browserContextId = None\<rparr>"
      and other = "\<lparr>targetId = ''S1'', targetType = ''service_worker'', openerId = Some ''T1'',
          browserContextId = None\<rparr>"
      and session = "None :: unit option" and session' = "None :: unit option"
      and proxy = "\<lparr>pageProxyId = ''T2'', proxy_browserContextId = None, proxy_openerId = Some ''T1''\<rparr>"
      and proxy' = "\<lparr>pageProxyId = ''T3'', proxy_browserContextId = None, proxy_openerId = Some ''T1''\<rparr>"
      and quiet = "\<lparr>pageProxyId = ''T4'', proxy_browserContextId = None, proxy_openerId = None\<rparr>"]
    popup_opener_consume_once[where T = "''T1''"
      and payload = "\<lparr>windowOpen_url = ''about:blank#x'', windowFeatures = [''noopener'']\<rparr>"
      and browser = "\<lparr>defaultContext = 0::nat, contexts = Map.empty,
          targets = (Map.empty :: string \<rightharpoonup> (nat, unit) CRTarget), popupOpeners = [''T0'']\<rparr>"
      and wk = "\<lparr>attachToDefaultContext = True, wk_defaultContext = 0::nat, wk_contexts = Map.empty,
          wkPages = Map.empty, wk_popupOpeners = []\<rparr>"
      and isPageType = "\<lambda>t. t = ''page'' \<or> t = ''background_page''"
      and info = "\<lparr>targetId = ''T2'', targetType = ''page'', openerId = Some ''T1'', browserContextId = None\<rparr>"
      and info' = "\<lparr>targetId = ''T3'', targetType = ''page'', openerId = Some ''T1'', browserContextId = None\<rparr>"
      and other = "\<lparr>targetId = ''S1'', targetType = ''service_worker'', openerId = Some ''T1'',
          browserContextId = None\<rparr>"
      and session = "None :: unit option" and session' = "None :: unit option"
      and proxy = "\<lparr>pageProxyId = ''T2'', proxy_browserContextId = None, proxy_openerId = Some ''T1''\<rparr>"
      and proxy' = "\<lparr>pageProxyId = ''T3'', proxy_browserContextId = None, proxy_openerId = Some ''T1''\<rparr>"
      and quiet = "\<lparr>pageProxyId = ''T4'', proxy_browserContextId = None, proxy_openerId = None\<rparr>"]
  by (simp add: surfaces_def startsWith_def onWindowOpen_def splice1_def createTarget_def truthy_def
      assert_def implicitBlank_def onPageProxyCreated_def wk_onWindowOpen_def Let_def)

text \<open>
  The claim as stated has every window-open signal push the opener id. In Chromium a
  signal with \<^verbatim>\<open>noopener\<close> for \<^verbatim>\<open>about:blank\<close> records nothing, and the page target
  created next with that opener id gets the flag false.
\<close>

theorem popup_opener_noopener_counterexample:
  "popupOpeners (onWindowOpen
       \<lparr>defaultContext = 0::nat, contexts = Map.empty, targets = (Map.empty :: string \<rightharpoonup> (nat, unit) CRTarget),
        popupOpeners = []\<rparr>
       ''T1'' \<lparr>windowOpen_url = ''about:blank'', windowFeatures = [''noopener'']\<rparr>) = []
   \<and> implicitBlank (fst (createTarget (\<lambda>t. t = ''page'' \<or> t = ''background_page'')
       (onWindowOpen \<lparr>defaultContext = 0::nat, contexts = Map.empty, targets = Map.empty, popupOpeners = []\<rparr>
          ''T1'' \<lparr>windowOpen_url = ''about:blank'', windowFeatures = [''noopener'']\<rparr>)
       \<lparr>targetId = ''T2'', targetType = ''page'', openerId = Some ''T1'', browserContextId = None\<rparr>
       (None :: unit option))) = Some False"
  by (simp add: onWindowOpen_def startsWith_def createTarget_def truthy_def assert_def implicitBlank_def Let_def)

lemma createTarget_context:
  assumes "targetId info \<notin> dom (targets browser)"
  shows "\<exists>target. createTarget isPageType browser info session
           = (Inr (target_context target, target),
              snd (createTarget isPageType browser info session))
         \<and> targets (snd (createTarget isPageType browser info session)) (targetId info) = Some target
         \<and> target_context target =
             (if unknownContext (contexts browser) (browserContextId info) then defaultContext browser
              else the (contexts browser (the (browserContextId info))))"
  using assms
  by (auto simp: createTarget_def assert_def unknownContext_def Let_def split: option.splits)

lemma onPageProxyCreated_context:
  assumes "surfaces browser info"
  shows "\<exists>wkPage. fst (onPageProxyCreated browser info) = Some wkPage
         \<and> wkPages (snd (onPageProxyCreated browser info)) (pageProxyId info) = Some wkPage
         \<and> wkPage_context wkPage =
             (if unknownContext (wk_contexts browser) (proxy_browserContextId info) then wk_defaultContext browser
              else the (wk_contexts browser (the (proxy_browserContextId info))))"
  using assms
  by (auto simp: onPageProxyCreated_def surfaces_def unknownContext_def truthy_def Let_def
      split: option.splits bool.splits)

text \<open>
  Claim C8, as amended. In Chromium a target whose reported context id is missing, empty or
  not a key of the contexts registry is assigned to the default context without an error,
  and one whose non-empty id is a registered key is assigned to that context. The WebKit
  backend does the same for the page proxies it does not ignore; it ignores a page proxy
  with a missing, empty or unregistered context id unless the browser was connected with
  \<^verbatim>\<open>attachToDefaultContext\<close>: then no page is created and the registry is unchanged.
\<close>

theorem context_resolution:
  "(targetId info \<notin> dom (targets browser) \<longrightarrow>
      (\<exists>target. fst (createTarget isPageType browser info session) = Inr (target_context target, target)
         \<and> targets (snd (createTarget isPageType browser info session)) (targetId info) = Some target
         \<and> (unknownContext (contexts browser) (browserContextId info) \<longrightarrow>
               target_context target = defaultContext browser)
         \<and> (\<forall>c ctx. browserContextId info = Some c \<and> c \<noteq> [] \<and> contexts browser c = Some ctx \<longrightarrow>
               target_context target = ctx)))
   \<and> (attachToDefaultContext wk \<or> \<not> unknownContext (wk_contexts wk) (proxy_browserContextId proxy) \<longrightarrow>
      (\<exists>wkPage. fst (onPageProxyCreated wk proxy) = Some wkPage
         \<and> wkPages (snd (onPageProxyCreated wk proxy)) (pageProxyId proxy) = Some wkPage
         \<and> (unknownContext (wk_contexts wk) (proxy_browserContextId proxy) \<longrightarrow>
               wkPage_context wkPage = wk_defaultContext wk)
         \<and> (\<forall>c ctx. proxy_browserContextId proxy = Some c \<and> c \<noteq> [] \<and> wk_contexts wk c = Some ctx \<longrightarrow>
               wkPage_context wkPage = ctx)))
   \<and> (\<not> attachToDefaultContext wk \<and> unknownContext (wk_contexts wk) (proxy_browserContextId proxy) \<longrightarrow>
      onPageProxyCreated wk proxy = (None, wk))"
proof (intro conjI impI)
  assume "targetId info \<notin> dom (targets browser)"
  from createTarget_context[OF this, of isPageType session]
  obtain target where t: "createTarget isPageType browser info session
           = (Inr (target_context target, target), snd (createTarget isPageType browser info session))"
      "targets (snd (createTarget isPageType browser info session)) (targetId info) = Some target"
      "target_context target =
             (if unknownContext (contexts browser) (browserContextId info) then defaultContext browser
              else the (contexts browser (the (browserContextId info))))"
    by blast
  have "fst (createTarget isPageType browser info session) = Inr (target_context target, target)"
    using t(1) by (metis fst_conv)
  moreover have "\<forall>c ctx. browserContextId info = Some c \<and> c \<noteq> [] \<and> contexts browser c = Some ctx \<longrightarrow>
               target_context target = ctx"
    using t(3) by (auto simp: unknownContext_def)
  ultimately show "\<exists>target. fst (createTarget isPageType browser info session) = Inr (target_context target, target)
         \<and> targets (snd (createTarget isPageType browser info session)) (targetId info) = Some target
         \<and> (unknownContext (contexts browser) (browserContextId info) \<longrightarrow>
               target_context target = defaultContext browser)
         \<and> (\<forall>c ctx. browserContextId info = Some c \<and> c \<noteq> [] \<and> contexts browser c = Some ctx \<longrightarrow>
               target_context target = ctx)"
    using t(2,3) by auto
next
  assume "attachToDefaultContext wk \<or> \<not> unknownContext (wk_contexts wk) (proxy_browserContextId proxy)"
  then have "surfaces wk proxy" by (simp add: surfaces_def)
  from onPageProxyCreated_context[OF this]
  obtain wkPage where p: "fst (onPageProxyCreated wk proxy) = Some wkPage"
      "wkPages (snd (onPageProxyCreated wk proxy)) (pageProxyId proxy) = Some wkPage"
      "wkPage_context wkPage =
             (if unknownContext (wk_contexts wk) (proxy_browserContextId proxy) then wk_defaultContext wk
              else the (wk_contexts wk (the (proxy_browserContextId proxy))))"
    by blast
  have "\<forall>c ctx. proxy_browserContextId proxy = Some c \<and> c \<noteq> [] \<and> wk_contexts wk c = Some ctx \<longrightarrow>
               wkPage_context wkPage = ctx"
    using p(3) by (auto simp: unknownContext_def)
  with p show "\<exists>wkPage. fst (onPageProxyCreated wk proxy) = Some wkPage
         \<and> wkPages (snd (onPageProxyCreated wk proxy)) (pageProxyId proxy) = Some wkPage
         \<and> (unknownContext (wk_contexts wk) (proxy_browserContextId proxy) \<longrightarrow>
               wkPage_context wkPage = wk_defaultContext wk)
         \<and> (\<forall>c ctx. proxy_browserContextId proxy = Some c \<and> c \<noteq> [] \<and> wk_contexts wk c = Some ctx \<longrightarrow>
               wkPage_context wkPage = ctx)"
    by auto
next
  assume "\<not> attachToDefaultContext wk \<and> unknownContext (wk_contexts wk) (proxy_browserContextId proxy)"
  then have "\<not> surfaces wk proxy" by (simp add: surfaces_def)
  then show "onPageProxyCreated wk proxy = (None, wk)" by (rule onPageProxyCreated_ignored)
qed

theorem context_resolution_witness:
  "(\<exists>target. fst (createTarget (\<lambda>t. t = ''page'' \<or> t = ''background_page'')
        \<lparr>defaultContext = 0::nat, contexts = [''ctx1'' \<mapsto> 5], targets = Map.empty, popupOpeners = []\<rparr>
        \<lparr>targetId = ''T1'', targetType = ''page'', openerId = None, browserContextId = Some ''ghost''\<rparr>
        (None :: unit option)) = Inr (0, target))
   \<and> (\<exists>target. fst (createTarget (\<lambda>t. t = ''page'' \<or> t = ''background_page'')
        \<lparr>defaultContext = 0::nat, contexts = [''ctx1'' \<mapsto> 5], targets = Map.empty, popupOpeners = []\<rparr>
        \<lparr>targetId = ''T1'', targetType = ''page'', openerId = None, browserContextId = Some ''ctx1''\<rparr>
        (None :: unit option)) = Inr (5, target))
   \<and> map_option wkPage_context (fst (onPageProxyCreated
        \<lparr>attachToDefaultContext = True, wk_defaultContext = 0::nat, wk_contexts = [''ctx1'' \<mapsto> 5],
         wkPages = Map.empty, wk_popupOpeners = []\<rparr>
        \<lparr>pageProxyId = ''P1'', proxy_browserContextId = Some ''ghost'', proxy_openerId = None\<rparr>)) = Some 0"
  using context_resolution[where browser = "\<lparr>defaultContext = 0::nat, contexts = [''ctx1'' \<mapsto> 5],
          targets = Map.empty, popupOpeners = []\<rparr>"
        and info = "\<lparr>targetId = ''T1'', targetType = ''page'', openerId = None, browserContextId = Some ''ghost''\<rparr>"
        and isPageType = "\<lambda>t. t = ''page'' \<or> t = ''background_page''" and session = "None :: unit option"
        and wk = "\<lparr>attachToDefaultContext = True, wk_defaultContext = 0::nat, wk_contexts = [''ctx1'' \<mapsto> 5],
         wkPages = Map.empty, wk_popupOpeners = []\<rparr>"
        and proxy = "\<lparr>pageProxyId = ''P1'', proxy_browserContextId = Some ''ghost'', proxy_openerId = None\<rparr>"]
    context_resolution[where browser = "\<lparr>defaultContext = 0::nat, contexts = [''ctx1'' \<mapsto> 5],
          targets = Map.empty, popupOpeners = []\<rparr>"
        and info = "\<lparr>targetId = ''T1'', targetType = ''page'', openerId = None, browserContextId = Some ''ctx1''\<rparr>"
        and isPageType = "\<lambda>t. t = ''page'' \<or> t = ''background_page''" and session = "None :: unit option"
        and wk = "\<lparr>attachToDefaultContext = True, wk_defaultContext = 0::nat, wk_contexts = [''ctx1'' \<mapsto> 5],
         wkPages = Map.empty, wk_popupOpeners = []\<rparr>"
        and proxy = "\<lparr>pageProxyId = ''P1'', proxy_browserContextId = Some ''ghost'', proxy_openerId = None\<rparr>"]
  by (auto simp: unknownContext_def)

text \<open>
  The claim as stated assigns every target with an unknown context id to the default
  context. A WebKit browser connected without \<^verbatim>\<open>attachToDefaultContext\<close> creates and
  registers nothing for it.
\<close>

theorem context_resolution_webkit_counterexample:
  "fst (onPageProxyCreated
        \<lparr>attachToDefaultContext = False, wk_defaultContext = 0::nat, wk_contexts = Map.empty,
         wkPages = Map.empty, wk_popupOpeners = []\<rparr>
        \<lparr>pageProxyId = ''P1'', proxy_browserContextId = Some ''unknown'', proxy_openerId = None\<rparr>) = None
   \<and> wkPages (snd (onPageProxyCreated
        \<lparr>attachToDefaultContext = False, wk_defaultContext = 0::nat, wk_contexts = Map.empty,
         wkPages = Map.empty, wk_popupOpeners = []\<rparr>
        \<lparr>pageProxyId = ''P1'', proxy_browserContextId = Some ''unknown'', proxy_openerId = None\<rparr>)) ''P1'' = None"
  by (simp add: onPageProxyCreated_def truthy_def)

lemma createTarget_keeps:
  "targets browser tid = Some target \<Longrightarrow>
     targets (snd (createTarget isPageType browser info session)) tid = Some target"
  by (auto simp: createTarget_def assert_def Let_def)

lemma createTargets_keeps:
  "targets browser tid = Some target \<Longrightarrow>
     targets (createTargets isPageType browser events) tid = Some target"
proof (induction events arbitrary: browser)
  case Nil
  then show ?case by simp
next
  case (Cons event events)
  obtain info session where e: "event = (info, session)" by (cases event)
  from Cons.prems have "targets (snd (createTarget isPageType browser info session)) tid = Some target"
    by (rule createTarget_keeps)
  from Cons.IH[OF this] e show ?case by simp
qed

text \<open>
  Claim C9. \<^verbatim>\<open>CRBrowser._createTarget\<close> for a target id the registry already holds fails the
  assertion \<^verbatim>\<open>Target should not exist before targetCreated\<close> and leaves the registry's
  entries as they were; for an id the registry does not hold, the assertion passes and the
  new target is inserted under its id. So no run of such calls ever replaces a target
  that is registered.
\<close>

theorem target_registration_unique:
  "(targetId info \<in> dom (targets browser) \<longrightarrow>
      fst (createTarget isPageType browser info session) = Inl ''Target should not exist before targetCreated''
    \<and> targets (snd (createTarget isPageType browser info session)) = targets browser)
   \<and> (targetId info \<notin> dom (targets browser) \<longrightarrow>
      (\<exists>ctx target. fst (createTarget isPageType browser info session) = Inr (ctx, target)
         \<and> target_info target = info
         \<and> targets (snd (createTarget isPageType browser info session))
             = (targets browser)(targetId info \<mapsto> target)))
   \<and> (\<forall>tid target events. targets browser tid = Some target \<longrightarrow>
         targets (createTargets isPageType browser events) tid = Some target)"
proof (intro conjI impI allI)
  assume "targetId info \<in> dom (targets browser)"
  then show "fst (createTarget isPageType browser info session) = Inl ''Target should not exist before targetCreated''"
    by (auto simp: createTarget_def assert_def Let_def)
next
  assume "targetId info \<in> dom (targets browser)"
  then show "targets (snd (createTarget isPageType browser info session)) = targets browser"
    by (auto simp: createTarget_def assert_def Let_def)
next
  assume "targetId info \<notin> dom (targets browser)"
  then show "\<exists>ctx target. fst (createTarget isPageType browser info session) = Inr (ctx, target)
         \<and> target_info target = info
         \<and> targets (snd (createTarget isPageType browser info session))
             = (targets browser)(targetId info \<mapsto> target)"
    by (auto simp: createTarget_def assert_def Let_def)
next
  fix tid target events
  assume "targets browser tid = Some target"
  then show "targets (createTargets isPageType browser events) tid = Some target"
    by (rule createTargets_keeps)
qed

theorem target_registration_unique_witness:
  "fst (createTarget (\<lambda>t. t = ''page'' \<or> t = ''background_page'')
        \<lparr>defaultContext = 0::nat, contexts = Map.empty,
         targets = [''T1'' \<mapsto> \<lparr>target_info = \<lparr>targetId = ''T1'', targetType = ''page'', openerId = None,
                       browserContextId = None\<rparr>, target_context = 0, target_session = (None :: unit option),
                       hasInitialAboutBlank = False\<rparr>],
         popupOpeners = []\<rparr>
        \<lparr>targetId = ''T1'', targetType = ''page'', openerId = Some ''T0'', browserContextId = None\<rparr> None)
     = Inl ''Target should not exist before targetCreated''
   \<and> map_option target_info (targets (snd (createTarget (\<lambda>t. t = ''page'' \<or> t = ''background_page'')
        \<lparr>defaultContext = 0::nat, contexts = Map.empty,
         targets = [''T1'' \<mapsto> \<lparr>target_info = \<lparr>targetId = ''T1'', targetType = ''page'', openerId = None,
                       browserContextId = None\<rparr>, target_context = 0, target_session = (None :: unit option),
                       hasInitialAboutBlank = False\<rparr>],
         popupOpeners = []\<rparr>
        \<lparr>targetId = ''T1'', targetType = ''page'', openerId = Some ''T0'', browserContextId = None\<rparr> None))
        ''T1'')
     = Some \<lparr>targetId = ''T1'', targetType = ''page'', openerId = None, browserContextId = None\<rparr>
   \<and> dom (targets (snd (createTarget (\<lambda>t. t = ''page'' \<or> t = ''background_page'')
        \<lparr>defaultContext = 0::nat, contexts = Map.empty, targets = Map.empty, popupOpeners = []\<rparr>
        \<lparr>targetId = ''T1'', targetType = ''page'', openerId = None, browserContextId = None\<rparr>
        (None :: unit option)))) = {''T1''}"
  using target_registration_unique[where browser = "\<lparr>defaultContext = 0::nat, contexts = Map.empty,
         targets = [''T1'' \<mapsto> \<lparr>target_info = \<lparr>targetId = ''T1'', targetType = ''page'', openerId = None,
                       browserContextId = None\<rparr>, target_context = 0, target_session = (None :: unit option),
                       hasInitialAboutBlank = False\<rparr>],
         popupOpeners = []\<rparr>"
      and info = "\<lparr>targetId = ''T1'', targetType = ''page'', openerId = Some ''T0'', browserContextId = None\<rparr>"
      and isPageType = "\<lambda>t. t = ''page'' \<or> t = ''background_page''" and session = None]
    target_registration_unique[where browser = "\<lparr>defaultContext = 0::nat, contexts = Map.empty,
         targets = Map.empty, popupOpeners = []\<rparr>"
      and info = "\<lparr>targetId = ''T1'', targetType = ''page'', openerId = None, browserContextId = None\<rparr>"
      and isPageType = "\<lambda>t. t = ''page'' \<or> t = ''background_page''" and session = "None :: unit option"]
  by (simp add: createTarget_def assert_def truthy_def Let_def)

section \<open>Properties of the context options\<close>

lemma js_less_inRange:
  "n \<noteq> NaN \<Longrightarrow> lo \<le> hi \<Longrightarrow> (\<not> js_less n (Finite lo) \<and> \<not> js_less (Finite hi) n) = inRange lo hi n"
  by (cases n) auto

lemma js_less_nonNegative: "n \<noteq> NaN \<Longrightarrow> (\<not> js_less n (Finite 0)) = nonNegative n"
  by (cases n) auto

lemma orZero_not_NaN: "orZero a \<noteq> NaN"
  by (cases a rule: orZero.cases) auto

lemma verifyGeolocation_valid:
  assumes "\<forall>n. isNumber n" "longitude g \<noteq> NaN" "latitude g \<noteq> NaN"
  shows "geolocationValid g \<Longrightarrow>
           verifyGeolocation isNumber g = Inr (g\<lparr>accuracy := Some (orZero (accuracy g))\<rparr>)"
    and "\<not> geolocationValid g \<Longrightarrow>
           verifyGeolocation isNumber g = Inl (InvalidLongitude (longitude g))
         \<or> verifyGeolocation isNumber g = Inl (InvalidLatitude (latitude g))
         \<or> verifyGeolocation isNumber g = Inl (InvalidAccuracy (orZero (accuracy g)))"
proof -
  have lon: "(\<not> js_less (longitude g) (Finite (- 180)) \<and> \<not> js_less (Finite 180) (longitude g))
      = inRange (- 180) 180 (longitude g)"
    using js_less_inRange[OF assms(2), of "- 180" 180] by simp
  have lat: "(\<not> js_less (latitude g) (Finite (- 90)) \<and> \<not> js_less (Finite 90) (latitude g))
      = inRange (- 90) 90 (latitude g)"
    using js_less_inRange[OF assms(3), of "- 90" 90] by simp
  have acc: "(\<not> js_less (orZero (accuracy g)) (Finite 0)) = nonNegative (orZero (accuracy g))"
    using js_less_nonNegative[OF orZero_not_NaN] by simp
  show "geolocationValid g \<Longrightarrow>
           verifyGeolocation isNumber g = Inr (g\<lparr>accuracy := Some (orZero (accuracy g))\<rparr>)"
    using assms(1) lon lat acc by (auto simp: verifyGeolocation_def geolocationValid_def Let_def)
  show "\<not> geolocationValid g \<Longrightarrow>
           verifyGeolocation isNumber g = Inl (InvalidLongitude (longitude g))
         \<or> verifyGeolocation isNumber g = Inl (InvalidLatitude (latitude g))
         \<or> verifyGeolocation isNumber g = Inl (InvalidAccuracy (orZero (accuracy g)))"
    using assms(1) lon lat acc by (auto simp: verifyGeolocation_def geolocationValid_def Let_def)
qed

lemma validate_viewport:
  "validateBrowserContextOptions isNumber verifyHeaders store options = Inr (result, store') \<Longrightarrow>
     (viewport options = Absent \<longrightarrow>
        viewport result = Object (Suc (length store)) \<and>
        store' = store @ [\<lparr>width = Finite 1280, height = Finite 720\<rparr>, \<lparr>width = Finite 1280, height = Finite 720\<rparr>])
   \<and> (viewport options = IsNull \<longrightarrow> viewport result = IsNull \<and> store' = store)
   \<and> (\<forall>a. viewport options = Object a \<longrightarrow>
        viewport result = Object (length store) \<and> store' = store @ [store ! a])"
  by (cases "viewport options")
     (auto simp: validateBrowserContextOptions_def Let_def nth_append split: option.splits sum.splits)

lemma validate_fields:
  "validateBrowserContextOptions isNumber verifyHeaders store options = Inr (result, store') \<Longrightarrow>
     result\<lparr>viewport := viewport options, geolocation := geolocation options,
            extraHTTPHeaders := extraHTTPHeaders options\<rparr> = options"
  by (cases "viewport options")
     (auto simp: validateBrowserContextOptions_def Let_def split: option.splits sum.splits)

lemma validate_outcome:
  "validateBrowserContextOptions isNumber verifyHeaders store options =
     (case (case geolocation options of None \<Rightarrow> Inr None
            | Some g \<Rightarrow> (case verifyGeolocation isNumber g of Inl e \<Rightarrow> Inl e | Inr g' \<Rightarrow> Inr (Some g'))) of
        Inl e \<Rightarrow> Inl e
      | Inr geo \<Rightarrow>
          (case (case extraHTTPHeaders options of None \<Rightarrow> Inr None
                 | Some h \<Rightarrow> (case verifyHeaders h of Inl e \<Rightarrow> Inl (InvalidHeaders e) | Inr h' \<Rightarrow> Inr (Some h'))) of
             Inl e \<Rightarrow> Inl e
           | Inr hs \<Rightarrow>
               Inr (options\<lparr>viewport := (case viewport options of Absent \<Rightarrow> Object (Suc (length store))
                                             | IsNull \<Rightarrow> IsNull | Object a \<Rightarrow> Object (length store)),
                            geolocation := geo, extraHTTPHeaders := hs\<rparr>,
                    (case viewport options of
                       Absent \<Rightarrow> store @ [\<lparr>width = Finite 1280, height = Finite 720\<rparr>,
                                            \<lparr>width = Finite 1280, height = Finite 720\<rparr>]
                     | IsNull \<Rightarrow> store
                     | Object a \<Rightarrow> store @ [store ! a]))))"
  by (cases "viewport options")
     (auto simp: validateBrowserContextOptions_def Let_def nth_append split: option.splits sum.splits)


lemma validate_succeeds_iff:
  assumes "\<forall>n. isNumber n"
    and "\<forall>g. geolocation options = Some g \<longrightarrow> longitude g \<noteq> NaN \<and> latitude g \<noteq> NaN"
  shows "(\<exists>result store'. validateBrowserContextOptions isNumber
            (verifyHeaders :: 'h \<Rightarrow> 'e + 'h) store options = Inr (result, store'))
     \<longleftrightarrow> (\<forall>g. geolocation options = Some g \<longrightarrow> geolocationValid g)
        \<and> (\<forall>h. extraHTTPHeaders options = Some h \<longrightarrow> (\<exists>h'. verifyHeaders h = Inr h'))"
proof (cases "geolocation options")
  case None
  then show ?thesis
    by (auto simp: validate_outcome split: option.splits sum.splits)
next
  case (Some g)
  with assms(2) have nn: "longitude g \<noteq> NaN" "latitude g \<noteq> NaN" by auto
  show ?thesis
  proof (cases "geolocationValid g")
    case True
    have "(verifyGeolocation isNumber g :: 'e validation_error + Geolocation)
        = Inr (g\<lparr>accuracy := Some (orZero (accuracy g))\<rparr>)"
      using verifyGeolocation_valid(1)[OF assms(1) nn True] .
    with Some True show ?thesis
      by (auto simp: validate_outcome split: option.splits sum.splits)
  next
    case False
    have "\<exists>e. (verifyGeolocation isNumber g :: 'e validation_error + Geolocation) = Inl e"
      using verifyGeolocation_valid(2)[OF assms(1) nn False] by blast
    with Some False show ?thesis
      by (auto simp: validate_outcome split: option.splits sum.splits)
  qed
qed

lemma validate_geolocation:
  assumes "validateBrowserContextOptions isNumber verifyHeaders store options = Inr (result, store')"
  shows "geolocation result = map_option (\<lambda>g. g\<lparr>accuracy := Some (orZero (accuracy g))\<rparr>) (geolocation options)"
  using assms
  by (auto simp: validate_outcome verifyGeolocation_def Let_def split: option.splits sum.splits if_splits)

lemma validate_headers:
  assumes "validateBrowserContextOptions isNumber verifyHeaders store options = Inr (result, store')"
  shows "(extraHTTPHeaders options = None \<longrightarrow> extraHTTPHeaders result = None)
       \<and> (\<forall>h. extraHTTPHeaders options = Some h \<longrightarrow>
            (\<exists>h'. verifyHeaders h = Inr h' \<and> extraHTTPHeaders result = Some h'))"
  using assms
  by (auto simp: validate_outcome split: option.splits sum.splits)

text \<open>
  What \<^verbatim>\<open>validateBrowserContextOptions\<close> does away from \<^verbatim>\<open>NaN\<close>. For options whose
  viewport reference is valid, with \<^verbatim>\<open>helper.isNumber\<close> true of every number and a
  geolocation whose longitude and latitude are not \<^verbatim>\<open>NaN\<close>: the function returns exactly
  when the geolocation, if present, is within the bounds (longitude in [-180, 180],
  latitude in [-90, 90], accuracy at least 0, with 0 for an absent or falsy accuracy) and
  \<^verbatim>\<open>network.verifyHeaders\<close> accepts the extra HTTP headers, if present. What it returns is a
  copy in which a missing viewport is a new object \<^verbatim>\<open>{width: 1280, height: 720}\<close>, a
  \<^verbatim>\<open>null\<close> viewport is \<^verbatim>\<open>null\<close>, a given viewport is a new object with the same content
  at another address, and no existing object of the store has changed; the geolocation is
  the given one with its accuracy defaulted; the extra HTTP headers are what
  \<^verbatim>\<open>network.verifyHeaders\<close> returned for the given ones; every other field is as given.
\<close>

lemma validateBrowserContextOptions_copy:
  assumes "\<forall>n. isNumber n"
    and "\<forall>g. geolocation options = Some g \<longrightarrow> longitude g \<noteq> NaN \<and> latitude g \<noteq> NaN"
    and "\<forall>a. viewport options = Object a \<longrightarrow> a < length store"
  shows "((\<exists>result store'. validateBrowserContextOptions isNumber verifyHeaders store options = Inr (result, store'))
           \<longleftrightarrow> (\<forall>g. geolocation options = Some g \<longrightarrow> geolocationValid g)
              \<and> (\<forall>h. extraHTTPHeaders options = Some h \<longrightarrow> (\<exists>h'. verifyHeaders h = Inr h')))
       \<and> (\<forall>result store'.
            validateBrowserContextOptions isNumber verifyHeaders store options = Inr (result, store') \<longrightarrow>
              (viewport options = Absent \<longrightarrow>
                 (\<exists>a. viewport result = Object a \<and> length store \<le> a \<and> a < length store'
                    \<and> store' ! a = \<lparr>width = Finite 1280, height = Finite 720\<rparr>))
            \<and> (viewport options = IsNull \<longrightarrow> viewport result = IsNull)
            \<and> (\<forall>a. viewport options = Object a \<longrightarrow>
                 (\<exists>a'. viewport result = Object a' \<and> a' \<noteq> a \<and> a' < length store'
                    \<and> store' ! a' = store ! a))
            \<and> take (length store) store' = store
            \<and> geolocation result
                = map_option (\<lambda>g. g\<lparr>accuracy := Some (orZero (accuracy g))\<rparr>) (geolocation options)
            \<and> (extraHTTPHeaders options = None \<longrightarrow> extraHTTPHeaders result = None)
            \<and> (\<forall>h. extraHTTPHeaders options = Some h \<longrightarrow>
                 (\<exists>h'. verifyHeaders h = Inr h' \<and> extraHTTPHeaders result = Some h'))
            \<and> result\<lparr>viewport := viewport options, geolocation := geolocation options,
                      extraHTTPHeaders := extraHTTPHeaders options\<rparr> = options)"
proof (intro conjI allI impI)
  show "(\<exists>result store'. validateBrowserContextOptions isNumber verifyHeaders store options = Inr (result, store'))
           \<longleftrightarrow> (\<forall>g. geolocation options = Some g \<longrightarrow> geolocationValid g)
              \<and> (\<forall>h. extraHTTPHeaders options = Some h \<longrightarrow> (\<exists>h'. verifyHeaders h = Inr h'))"
    using assms(1,2) by (rule validate_succeeds_iff)
next
  fix result store'
  assume ok: "validateBrowserContextOptions isNumber verifyHeaders store options = Inr (result, store')"
  note vp = validate_viewport[OF ok]
  { assume "viewport options = Absent"
    with vp have "viewport result = Object (Suc (length store))"
      and "store' = store @ [\<lparr>width = Finite 1280, height = Finite 720\<rparr>, \<lparr>width = Finite 1280, height = Finite 720\<rparr>]"
      by auto
    then show "\<exists>a. viewport result = Object a \<and> length store \<le> a \<and> a < length store'
                    \<and> store' ! a = \<lparr>width = Finite 1280, height = Finite 720\<rparr>"
      by (auto simp: nth_append) }
  { assume "viewport options = IsNull"
    with vp show "viewport result = IsNull" by auto }
  { fix a assume a: "viewport options = Object a"
    with vp have "viewport result = Object (length store)" and "store' = store @ [store ! a]" by auto
    moreover from a assms(3) have "a < length store" by auto
    ultimately show "\<exists>a'. viewport result = Object a' \<and> a' \<noteq> a \<and> a' < length store'
                    \<and> store' ! a' = store ! a"
      by auto }
  show "take (length store) store' = store"
    using vp by (cases "viewport options") auto
  show "geolocation result
                = map_option (\<lambda>g. g\<lparr>accuracy := Some (orZero (accuracy g))\<rparr>) (geolocation options)"
    using ok by (rule validate_geolocation)
  { assume "extraHTTPHeaders options = None"
    then show "extraHTTPHeaders result = None" using validate_headers[OF ok] by auto }
  { fix h assume "extraHTTPHeaders options = Some h"
    then show "\<exists>h'. verifyHeaders h = Inr h' \<and> extraHTTPHeaders result = Some h'"
      using validate_headers[OF ok] by auto }
  show "result\<lparr>viewport := viewport options, geolocation := geolocation options,
                      extraHTTPHeaders := extraHTTPHeaders options\<rparr> = options"
    using ok by (rule validate_fields)
qed

lemma validateBrowserContextOptions_copy_instance:
  "\<exists>result store'.
      validateBrowserContextOptions (\<lambda>n. True) (\<lambda>h. (Inr h :: string + (string \<times> string) list))
        [\<lparr>width = Finite 800, height = Finite 600\<rparr>]
        \<lparr>viewport = Object 0, ignoreHTTPSErrors = None, javaScriptEnabled = None, bypassCSP = None,
         userAgent = Some ''agent'', locale' = None, timezoneId = None,
         geolocation = Some \<lparr>longitude = Finite 10, latitude = Finite 20, accuracy = None\<rparr>,
         permissions = None, extraHTTPHeaders = Some [(''x-test'', ''1'')], offline = None,
         httpCredentials = None, deviceScaleFactor = None, isMobile = None, hasTouch = None\<rparr>
        = Inr (result, store')
    \<and> viewport result = Object 1
    \<and> store' = [\<lparr>width = Finite 800, height = Finite 600\<rparr>, \<lparr>width = Finite 800, height = Finite 600\<rparr>]
    \<and> geolocation result = Some \<lparr>longitude = Finite 10, latitude = Finite 20, accuracy = Some (Finite 0)\<rparr>
    \<and> extraHTTPHeaders result = Some [(''x-test'', ''1'')]
    \<and> userAgent result = Some ''agent''"
  using validateBrowserContextOptions_copy[of "\<lambda>n. True"
      "\<lparr>viewport = Object 0, ignoreHTTPSErrors = None, javaScriptEnabled = None, bypassCSP = None,
         userAgent = Some ''agent'', locale' = None, timezoneId = None,
         geolocation = Some \<lparr>longitude = Finite 10, latitude = Finite 20, accuracy = None\<rparr>,
         permissions = None, extraHTTPHeaders = Some [(''x-test'', ''1'')], offline = None,
         httpCredentials = None, deviceScaleFactor = None, isMobile = None, hasTouch = None\<rparr>"
      "[\<lparr>width = Finite 800, height = Finite 600\<rparr>]" "\<lambda>h. (Inr h :: string + (string \<times> string) list)"]
  by (simp add: validateBrowserContextOptions_def verifyGeolocation_def Let_def)

lemma verifyGeolocation_NaN_longitude:
  "(verifyGeolocation (\<lambda>n. True) \<lparr>longitude = NaN, latitude = Finite 0, accuracy = None\<rparr>
      :: unit validation_error + Geolocation)
     = Inr \<lparr>longitude = NaN, latitude = Finite 0, accuracy = Some (Finite 0)\<rparr>"
  by (simp add: verifyGeolocation_def Let_def)

lemma verifyGeolocation_NaN_latitude:
  "(verifyGeolocation (\<lambda>n. True) \<lparr>longitude = Finite 0, latitude = NaN, accuracy = None\<rparr>
      :: unit validation_error + Geolocation)
     = Inr \<lparr>longitude = Finite 0, latitude = NaN, accuracy = Some (Finite 0)\<rparr>"
  by (simp add: verifyGeolocation_def Let_def)

text \<open>
  Claim C10 holds of the viewport, of the fields that pass through and of every geolocation
  whose longitude and latitude are not \<^verbatim>\<open>NaN\<close> (\<open>validateBrowserContextOptions_copy\<close>). At
  \<^verbatim>\<open>NaN\<close> the validation misses a case: both comparisons of the longitude check,
  \<^verbatim>\<open>longitude < -180\<close> and \<^verbatim>\<open>longitude > 180\<close>, are false, so the options
  \<^verbatim>\<open>{geolocation: {longitude: NaN, latitude: 0}}\<close> are returned as valid, with a longitude
  that is not in [-180, 180], against the precondition the function's own error message
  states.
\<close>

theorem validateBrowserContextOptions_NaN_longitude:
  "validateBrowserContextOptions (\<lambda>n. True) (\<lambda>h. (Inr h :: unit + unit)) []
        \<lparr>viewport = Absent, ignoreHTTPSErrors = None, javaScriptEnabled = None, bypassCSP = None,
         userAgent = None, locale' = None, timezoneId = None,
         geolocation = Some \<lparr>longitude = NaN, latitude = Finite 0, accuracy = None\<rparr>,
         permissions = None, extraHTTPHeaders = None, offline = None,
         httpCredentials = None, deviceScaleFactor = None, isMobile = None, hasTouch = None\<rparr>
     = Inr (\<lparr>viewport = Object 1, ignoreHTTPSErrors = None, javaScriptEnabled = None, bypassCSP = None,
         userAgent = None, locale' = None, timezoneId = None,
         geolocation = Some \<lparr>longitude = NaN, latitude = Finite 0, accuracy = Some (Finite 0)\<rparr>,
         permissions = None, extraHTTPHeaders = None, offline = None,
         httpCredentials = None, deviceScaleFactor = None, isMobile = None, hasTouch = None\<rparr>,
        [\<lparr>width = Finite 1280, height = Finite 720\<rparr>, \<lparr>width = Finite 1280, height = Finite 720\<rparr>])
   \<and> \<not> inRange (- 180) 180 NaN"
  by (simp add: validateBrowserContextOptions_def verifyGeolocation_def Let_def)

end
